theory Spec2Isabelle
  imports Main "HOL-Library.Sublist"
begin

section \<open>Data model\<close>

text \<open>
  The interfaces of \<^verbatim>\<open>spotify.ts\<close> and \<^verbatim>\<open>youtube.ts\<close>. Field names carry a prefix
  where the TypeScript name is taken in HOL (\<^verbatim>\<open>id\<close>, \<^verbatim>\<open>name\<close>, \<^verbatim>\<open>type\<close>).
  JavaScript strings are modelled as \<^typ>\<open>string\<close>; a string is falsy exactly when it is empty.
\<close>

record artist =
  artist_name :: string

record album =
  album_name :: string

record track_obj =
  track_id :: string
  track_name :: string
  track_artists :: "artist list"
  track_album :: album
  track_duration_ms :: int

text \<open>\<^verbatim>\<open>SpotifyTrack\<close>: the \<^verbatim>\<open>track\<close> field is an object or \<^verbatim>\<open>null\<close>.\<close>

record SpotifyTrack =
  track :: "track_obj option"

record playlist_owner =
  owner_id :: string
  owner_display_name :: string

record playlist_tracks_ref =
  tracks_href :: string
  tracks_total :: int

record SpotifyPlaylist =
  pl_id :: string
  pl_name :: string
  pl_description :: string
  pl_owner :: playlist_owner
  pl_tracks :: playlist_tracks_ref

record video_id =
  videoId :: string

record video_snippet =
  snippet_title :: string
  channelTitle :: string

record YouTubeVideo =
  video_ident :: video_id
  video_snippet :: video_snippet

section \<open>Requests, responses and the observable trace\<close>

text \<open>One page of \<^verbatim>\<open>GET /playlists/{id}/tracks\<close>: \<^verbatim>\<open>{ items, next }\<close>.\<close>

record tracks_page =
  page_items :: "SpotifyTrack list"
  page_next :: "string option"

text \<open>The \<^verbatim>\<open>params\<close> object of \<^verbatim>\<open>client.get("/search", ...)\<close>.\<close>

record search_params =
  sp_part :: string
  sp_q :: string
  sp_type :: string
  sp_videoCategoryId :: string
  sp_maxResults :: nat

text \<open>\<^verbatim>\<open>response.data\<close> of a search: \<^verbatim>\<open>items\<close> may be missing.\<close>

record search_data =
  search_items :: "YouTubeVideo list option"

text \<open>The body of \<^verbatim>\<open>client.post("/playlists", ...)\<close>.\<close>

record playlist_body =
  body_title :: string
  body_description :: string
  body_privacyStatus :: string

text \<open>The body of \<^verbatim>\<open>client.post("/playlistItems", ...)\<close>.\<close>

record item_body =
  item_playlistId :: string
  item_kind :: string
  item_videoId :: string

text \<open>
  What the handlers read of a rejected request:
  \<^verbatim>\<open>error.response?.data?.error?.errors?.[0]?.reason\<close>,
  \<^verbatim>\<open>error.response?.data?.error?.errors?.[0]?.message\<close>,
  \<^verbatim>\<open>error.response?.data?.error?.message\<close> and \<^verbatim>\<open>error.message\<close>.
\<close>

record http_error =
  err_reason :: "string option"
  err_detail_message :: "string option"
  err_api_message :: "string option"
  err_message :: string

datatype js_error = Error string

datatype request =
    SpotifyGet string
  | YouTubeSearch search_params
  | YouTubeCreatePlaylist playlist_body
  | YouTubeAddItem item_body

text \<open>One constructor for each \<^verbatim>\<open>console\<close> call, with the values it interpolates.\<close>

datatype log_line =
    LogProcessing string string
  | LogEmptySkipping string
  | LogCreateFailedSkipping string
  | LogAttempting nat
  | LogAdded nat nat string string string
  | LogFoundButFailed nat nat string string
  | LogNotFound nat nat string string
  | LogFinished string
  | LogSuccessfullyAdded nat
  | LogCouldNotFind nat
  | LogFailedToAdd nat
  | LogCheckPlaylist string
  | LogSearching string
  | LogFound string string
  | LogNoRelevant string
  | LogSearchError string string
  | LogCreating string
  | LogCreated string
  | LogCreateError string string
  | LogAlreadyExists string string
  | LogAddSoftError string
  | LogAddError string string string
  | LogFetchingTracks string
  | LogNextPage
  | LogFoundValid nat
  | LogFetchError string http_error
  | LogNoPlaylistsFound
  | LogSelectedAll nat
  | LogSelectedByIds nat string
  | LogWarnNotFound string
  | LogNoneSelected
  | LogStarting nat
  | LogAllComplete

datatype event = Request request | Console log_line | Delay nat

text \<open>
  The remote services have a state of their own (\<^typ>\<open>'w\<close>): a reply may depend on every
  earlier request. The program state is that world and the trace of what the program did.
\<close>

record 'w state =
  world :: 'w
  trace :: "event list"

record 'w spotify_client =
  baseURL :: string
  spotify_get :: "string \<Rightarrow> 'w \<Rightarrow> (http_error + tracks_page) \<times> 'w"

record 'w youtube_client =
  youtube_search :: "search_params \<Rightarrow> 'w \<Rightarrow> (http_error + search_data) \<times> 'w"
  youtube_create :: "playlist_body \<Rightarrow> 'w \<Rightarrow> (http_error + string) \<times> 'w"
  youtube_add :: "item_body \<Rightarrow> 'w \<Rightarrow> (http_error + unit) \<times> 'w"

definition emit :: "event \<Rightarrow> 'w state \<Rightarrow> 'w state" where
  "emit e s = s\<lparr>trace := trace s @ [e]\<rparr>"

definition call :: "request \<Rightarrow> ('w \<Rightarrow> 'r \<times> 'w) \<Rightarrow> 'w state \<Rightarrow> 'r \<times> 'w state" where
  "call rq handler s =
     (case handler (world s) of
        (r, w') \<Rightarrow> (r, \<lparr>world = w', trace = trace s @ [Request rq]\<rparr>))"

section \<open>JavaScript library functions\<close>

text \<open>\<^verbatim>\<open>Array.prototype.join\<close> on an array of strings.\<close>

fun join :: "string \<Rightarrow> string list \<Rightarrow> string" where
  "join sep [] = []"
| "join sep [x] = x"
| "join sep (x # y # ys) = x @ sep @ join sep (y # ys)"

text \<open>\<^verbatim>\<open>String.prototype.replace\<close> with a string pattern: the first occurrence only.\<close>

fun replace_first :: "string \<Rightarrow> string \<Rightarrow> string \<Rightarrow> string" where
  "replace_first pat rep [] = (if pat = [] then rep else [])"
| "replace_first pat rep (c # cs) =
     (if prefix pat (c # cs) then rep @ drop (length pat) (c # cs)
      else c # replace_first pat rep cs)"

text \<open>\<^verbatim>\<open>String.prototype.includes\<close>.\<close>

fun str_includes :: "string \<Rightarrow> string \<Rightarrow> bool" where
  "str_includes [] pat = (pat = [])"
| "str_includes (c # cs) pat = (prefix pat (c # cs) \<or> str_includes cs pat)"

text \<open>Truthiness of a value of type \<^verbatim>\<open>string | null\<close>.\<close>

fun truthy :: "string option \<Rightarrow> bool" where
  "truthy None = False"
| "truthy (Some u) = (u \<noteq> [])"

text \<open>\<^verbatim>\<open>a ?? b\<close>.\<close>

fun nullish_or :: "string option \<Rightarrow> string \<Rightarrow> string" where
  "nullish_or None d = d"
| "nullish_or (Some m) d = m"

section \<open>youtube.ts\<close>

definition search_request :: "string \<Rightarrow> string \<Rightarrow> search_params" where
  "search_request trackName artistName =
     \<lparr>sp_part = ''snippet'',
      sp_q = trackName @ '' '' @ artistName,
      sp_type = ''video'',
      sp_videoCategoryId = ''10'',
      sp_maxResults = 5\<rparr>"

definition searchYouTubeVideo ::
  "'w youtube_client \<Rightarrow> string \<Rightarrow> string \<Rightarrow> 'w state \<Rightarrow> YouTubeVideo option \<times> 'w state" where
  "searchYouTubeVideo client trackName artistName s0 =
     (let query = trackName @ '' '' @ artistName;
          s1 = emit (Console (LogSearching query)) s0;
          params = search_request trackName artistName
      in case call (YouTubeSearch params) (youtube_search client params) s1 of
           (Inr data, s2) \<Rightarrow>
             (case search_items data of
                Some (bestResult # rest) \<Rightarrow>
                  (Some bestResult,
                   emit (Console (LogFound (snippet_title (video_snippet bestResult))
                                           (videoId (video_ident bestResult)))) s2)
              | Some [] \<Rightarrow> (None, emit (Console (LogNoRelevant query)) s2)
              | None \<Rightarrow> (None, emit (Console (LogNoRelevant query)) s2))
         | (Inl error, s2) \<Rightarrow>
             (None,
              emit (Console (LogSearchError query
                      (nullish_or (err_api_message error) (err_message error)))) s2))"

definition create_request :: "string \<Rightarrow> string \<Rightarrow> playlist_body" where
  "create_request title description =
     \<lparr>body_title = title,
      body_description =
        (if description \<noteq> [] then description
         else ''Playlist migrated from Spotify - '' @ title),
      body_privacyStatus = ''private''\<rparr>"

definition createYouTubePlaylist ::
  "'w youtube_client \<Rightarrow> string \<Rightarrow> string \<Rightarrow> 'w state \<Rightarrow> string option \<times> 'w state" where
  "createYouTubePlaylist client title description s0 =
     (let s1 = emit (Console (LogCreating title)) s0;
          body = create_request title description
      in case call (YouTubeCreatePlaylist body) (youtube_create client body) s1 of
           (Inr playlistId, s2) \<Rightarrow> (Some playlistId, emit (Console (LogCreated playlistId)) s2)
         | (Inl error, s2) \<Rightarrow>
             (None,
              emit (Console (LogCreateError title
                      (nullish_or (err_api_message error) (err_message error)))) s2))"

definition add_request :: "string \<Rightarrow> string \<Rightarrow> item_body" where
  "add_request playlistId vId =
     \<lparr>item_playlistId = playlistId, item_kind = ''youtube#video'', item_videoId = vId\<rparr>"

definition addVideoToYouTubePlaylist ::
  "'w youtube_client \<Rightarrow> string \<Rightarrow> string \<Rightarrow> 'w state \<Rightarrow> bool \<times> 'w state" where
  "addVideoToYouTubePlaylist client playlistId vId s0 =
     (let body = add_request playlistId vId
      in case call (YouTubeAddItem body) (youtube_add client body) s0 of
           (Inr u, s1) \<Rightarrow> (True, s1)
         | (Inl error, s1) \<Rightarrow>
             if err_reason error = Some ''duplicate''
                \<or> err_reason error = Some ''playlistItemDuplicate''
             then (True, emit (Console (LogAlreadyExists vId playlistId)) s1)
             else if err_reason error = Some ''forbidden''
                     \<and> (case err_api_message error of
                           None \<Rightarrow> False
                         | Some m \<Rightarrow> str_includes m ''video owner has disabled comments'')
             then (False, emit (Console (LogAddSoftError vId)) s1)
             else (False,
                   emit (Console (LogAddError vId playlistId
                           (nullish_or (err_detail_message error) (err_message error)))) s1))"

section \<open>spotify.ts\<close>

text \<open>
  The \<^verbatim>\<open>while (url)\<close> loop of \<^verbatim>\<open>getPlaylistTracksSpotify\<close>. It runs for as long as the
  server hands out a next page, so it is a partial function: \<^term>\<open>None\<close> is a loop that
  never ends. A rejected request leaves the loop with the error (the \<^verbatim>\<open>catch\<close> block is in
  \<open>getPlaylistTracksSpotify\<close> below).
\<close>

partial_function (option) fetch_track_pages ::
  "'w spotify_client \<Rightarrow> string option \<Rightarrow> SpotifyTrack list \<Rightarrow> 'w state
     \<Rightarrow> ((http_error + SpotifyTrack list) \<times> 'w state) option" where
  "fetch_track_pages client url tracks s =
     (case url of
        None \<Rightarrow> Some (Inr tracks, s)
      | Some u \<Rightarrow>
          if u = [] then Some (Inr tracks, s)
          else (case call (SpotifyGet u) (spotify_get client u) s of
                  (Inl error, s1) \<Rightarrow> Some (Inl error, s1)
                | (Inr data, s1) \<Rightarrow>
                    (let validItems = filter (\<lambda>item. track item \<noteq> None) (page_items data);
                         tracks' = tracks @ validItems
                     in if truthy (page_next data)
                        then fetch_track_pages client
                               (map_option (replace_first (baseURL client) []) (page_next data))
                               tracks' (emit (Console LogNextPage) s1)
                        else fetch_track_pages client (page_next data) tracks' s1)))"

definition tracks_url :: "string \<Rightarrow> string" where
  "tracks_url playlistId =
     ''/playlists/'' @ playlistId
       @ ''/tracks?fields=items(track(id,name,artists(name),album(name),duration_ms)),next&limit=100''"

definition getPlaylistTracksSpotify ::
  "'w spotify_client \<Rightarrow> string \<Rightarrow> 'w state
     \<Rightarrow> ((js_error + SpotifyTrack list) \<times> 'w state) option" where
  "getPlaylistTracksSpotify client playlistId s0 =
     (let s1 = emit (Console (LogFetchingTracks playlistId)) s0
      in case fetch_track_pages client (Some (tracks_url playlistId)) [] s1 of
           None \<Rightarrow> None
         | Some (Inr tracks, s2) \<Rightarrow>
             Some (Inr tracks, emit (Console (LogFoundValid (length tracks))) s2)
         | Some (Inl error, s2) \<Rightarrow>
             Some (Inl (Error (''Could not fetch tracks for playlist '' @ playlistId @ ''.'')),
                   emit (Console (LogFetchError playlistId error)) s2))"

section \<open>transfer.ts\<close>

record counts =
  addedCount :: nat
  notFoundCount :: nat
  failedCount :: nat

text \<open>\<^verbatim>\<open>track.artists.map((a) => a.name).join(", ")\<close>\<close>

definition artistNames_of :: "track_obj \<Rightarrow> string" where
  "artistNames_of t = join '', '' (map artist_name (track_artists t))"

text \<open>
  The body of the \<^verbatim>\<open>for\<close> loop at index \<open>i\<close>, on the three counters and the state.
  \<^verbatim>\<open>youtubeVideo?.id?.videoId\<close> is truthy when a video came back and its id is not empty.
\<close>

definition transfer_item ::
  "'w youtube_client \<Rightarrow> string \<Rightarrow> nat \<Rightarrow> nat \<Rightarrow> SpotifyTrack
     \<Rightarrow> counts \<times> 'w state \<Rightarrow> counts \<times> 'w state" where
  "transfer_item youtubeClient youtubePlaylistId len i item cs =
     (case cs of (c, s0) \<Rightarrow>
        (case track item of
           None \<Rightarrow> (c, s0)
         | Some t \<Rightarrow>
             (let artistNames = artistNames_of t;
                  s1 = emit (Delay 300) s0
              in case searchYouTubeVideo youtubeClient (track_name t) artistNames s1 of
                   (youtubeVideo, s2) \<Rightarrow>
                     if (case youtubeVideo of
                           None \<Rightarrow> False
                         | Some v \<Rightarrow> videoId (video_ident v) \<noteq> [])
                     then (case addVideoToYouTubePlaylist youtubeClient youtubePlaylistId
                                  (videoId (video_ident (the youtubeVideo))) s2 of
                             (success, s3) \<Rightarrow>
                               if success
                               then (c\<lparr>addedCount := addedCount c + 1\<rparr>,
                                     emit (Console (LogAdded (i + 1) len (track_name t) artistNames
                                        (snippet_title (video_snippet (the youtubeVideo))))) s3)
                               else (c\<lparr>failedCount := failedCount c + 1\<rparr>,
                                     emit (Console (LogFoundButFailed (i + 1) len (track_name t)
                                        artistNames)) s3))
                     else (c\<lparr>notFoundCount := notFoundCount c + 1\<rparr>,
                           emit (Console (LogNotFound (i + 1) len (track_name t) artistNames))
                             s2))))"

text \<open>\<^verbatim>\<open>for (let i = 0; i < spotifyTracks.length; i++)\<close>, from index \<open>i\<close> on the rest of the array.\<close>

fun transfer_loop ::
  "'w youtube_client \<Rightarrow> string \<Rightarrow> nat \<Rightarrow> nat \<Rightarrow> SpotifyTrack list
     \<Rightarrow> counts \<times> 'w state \<Rightarrow> counts \<times> 'w state" where
  "transfer_loop youtubeClient youtubePlaylistId len i [] cs = cs"
| "transfer_loop youtubeClient youtubePlaylistId len i (item # rest) cs =
     transfer_loop youtubeClient youtubePlaylistId len (i + 1) rest
       (transfer_item youtubeClient youtubePlaylistId len i item cs)"

definition report :: "string \<Rightarrow> string \<Rightarrow> counts \<Rightarrow> 'w state \<Rightarrow> 'w state" where
  "report playlistName youtubePlaylistId c s0 =
     (let s1 = emit (Console (LogFinished playlistName)) s0;
          s2 = emit (Console (LogSuccessfullyAdded (addedCount c))) s1;
          s3 = emit (Console (LogCouldNotFind (notFoundCount c))) s2;
          s4 = (if failedCount c > 0 then emit (Console (LogFailedToAdd (failedCount c))) s3
                else s3)
      in emit (Console (LogCheckPlaylist youtubePlaylistId)) s4)"

text \<open>
  \<^verbatim>\<open>transferPlaylist\<close> returns nothing; the model returns which \<^verbatim>\<open>return\<close> was taken and,
  for the last one, the playlist id and the final values of the three counters.
\<close>

datatype transfer_result =
    Skipped
  | CreateFailed
  | Transferred string counts

definition transferPlaylist ::
  "'w spotify_client \<Rightarrow> 'w youtube_client \<Rightarrow> SpotifyPlaylist \<Rightarrow> 'w state
     \<Rightarrow> ((js_error + transfer_result) \<times> 'w state) option" where
  "transferPlaylist spotifyClient youtubeClient spotifyPlaylist s0 =
     (let s1 = emit (Console (LogProcessing (pl_name spotifyPlaylist) (pl_id spotifyPlaylist))) s0
      in case getPlaylistTracksSpotify spotifyClient (pl_id spotifyPlaylist) s1 of
           None \<Rightarrow> None
         | Some (Inl err, s2) \<Rightarrow> Some (Inl err, s2)
         | Some (Inr spotifyTracks, s2) \<Rightarrow>
             if length spotifyTracks = 0
             then Some (Inr Skipped,
                        emit (Console (LogEmptySkipping (pl_name spotifyPlaylist))) s2)
             else
               (let newPlaylistTitle = pl_name spotifyPlaylist;
                    newPlaylistDescription =
                      (if pl_description spotifyPlaylist \<noteq> []
                       then pl_description spotifyPlaylist
                       else ''Migrated from Spotify: '' @ pl_name spotifyPlaylist)
                in case createYouTubePlaylist youtubeClient newPlaylistTitle
                          newPlaylistDescription s2 of
                     (youtubePlaylistId, s3) \<Rightarrow>
                       if \<not> truthy youtubePlaylistId
                       then Some (Inr CreateFailed,
                                  emit (Console (LogCreateFailedSkipping
                                     (pl_name spotifyPlaylist))) s3)
                       else
                         (let s4 = emit (Console (LogAttempting (length spotifyTracks))) s3
                          in case transfer_loop youtubeClient (the youtubePlaylistId)
                                    (length spotifyTracks) 0 spotifyTracks
                                    (\<lparr>addedCount = 0, notFoundCount = 0, failedCount = 0\<rparr>, s4) of
                               (c, s5) \<Rightarrow>
                                 Some (Inr (Transferred (the youtubePlaylistId) c),
                                       report (pl_name spotifyPlaylist)
                                         (the youtubePlaylistId) c s5))))"

section \<open>index.ts: the transfer command\<close>

text \<open>\<^verbatim>\<open>for (const playlist of playlistsToTransfer) await transferPlaylist(...)\<close>: an error thrown
  by one call leaves the loop.\<close>

fun transfer_each ::
  "'w spotify_client \<Rightarrow> 'w youtube_client \<Rightarrow> SpotifyPlaylist list \<Rightarrow> 'w state
     \<Rightarrow> ((js_error + unit) \<times> 'w state) option" where
  "transfer_each spotifyClient youtubeClient [] s = Some (Inr (), s)"
| "transfer_each spotifyClient youtubeClient (playlist # rest) s =
     (case transferPlaylist spotifyClient youtubeClient playlist s of
        None \<Rightarrow> None
      | Some (Inl err, s') \<Rightarrow> Some (Inl err, s')
      | Some (Inr r, s') \<Rightarrow> transfer_each spotifyClient youtubeClient rest s')"





section \<open>Reading the trace\<close>

text \<open>
  What the theorems observe of a run: the requests sent to YouTube, the playlists asked
  for, the search parameters, the per-track result lines (one outcome for each line
  ``Added'', ``Found, but failed to add'' or ``Not found'') and the numbers printed in the
  summary of a playlist.
\<close>

text \<open>The events that \<^verbatim>\<open>getPlaylistTracksSpotify\<close> can produce.\<close>

fun spotify_event :: "event \<Rightarrow> bool" where
  "spotify_event (Request (SpotifyGet u)) = True"
| "spotify_event (Console (LogFetchingTracks p)) = True"
| "spotify_event (Console LogNextPage) = True"
| "spotify_event (Console (LogFoundValid n)) = True"
| "spotify_event (Console (LogFetchError p e)) = True"
| "spotify_event e = False"

fun youtube_event :: "event \<Rightarrow> bool" where
  "youtube_event (Request (YouTubeSearch p)) = True"
| "youtube_event (Request (YouTubeCreatePlaylist b)) = True"
| "youtube_event (Request (YouTubeAddItem b)) = True"
| "youtube_event e = False"

definition youtube_requests :: "event list \<Rightarrow> event list" where
  "youtube_requests tr = filter youtube_event tr"

datatype TransferOutcome = Added | NotFound | AddFailed

fun outcome_of :: "event \<Rightarrow> TransferOutcome list" where
  "outcome_of (Console (LogAdded i n t a v)) = [Added]"
| "outcome_of (Console (LogFoundButFailed i n t a)) = [AddFailed]"
| "outcome_of (Console (LogNotFound i n t a)) = [NotFound]"
| "outcome_of e = []"

definition outcomes :: "event list \<Rightarrow> TransferOutcome list" where
  "outcomes tr = concat (map outcome_of tr)"

fun create_body_of :: "event \<Rightarrow> playlist_body list" where
  "create_body_of (Request (YouTubeCreatePlaylist b)) = [b]"
| "create_body_of e = []"

definition created_playlists :: "event list \<Rightarrow> playlist_body list" where
  "created_playlists tr = concat (map create_body_of tr)"

fun search_of :: "event \<Rightarrow> search_params list" where
  "search_of (Request (YouTubeSearch p)) = [p]"
| "search_of e = []"

definition search_requests :: "event list \<Rightarrow> search_params list" where
  "search_requests tr = concat (map search_of tr)"

text \<open>The condition \<^verbatim>\<open>youtubeVideo?.id?.videoId\<close> of the loop, by name.\<close>

definition found_video :: "YouTubeVideo option \<Rightarrow> bool" where
  "found_video youtubeVideo =
     (case youtubeVideo of None \<Rightarrow> False | Some v \<Rightarrow> videoId (video_ident v) \<noteq> [])"

text \<open>
  A paginated track listing: asked for \<open>url\<close> in world \<open>w\<close>, the server answers with the
  first page; every page but the last names a next page (which is then served at that
  address, relative to the base URL), and the last page has \<^verbatim>\<open>next: null\<close>.
\<close>

fun serves :: "'w spotify_client \<Rightarrow> string \<Rightarrow> tracks_page list \<Rightarrow> 'w \<Rightarrow> bool" where
  "serves client url [] w = False"
| "serves client url (p # ps) w =
     (url \<noteq> [] \<and> fst (spotify_get client url w) = Inr p \<and>
      (case page_next p of
         None \<Rightarrow> ps = []
       | Some n \<Rightarrow>
           n \<noteq> [] \<and> ps \<noteq> [] \<and>
           serves client (replace_first (baseURL client) [] n) ps
             (snd (spotify_get client url w))))"

text \<open>
  A concrete pair of services, used in the examples below. Spotify has playlist \<open>a\<close> on two pages
  (with unavailable entries) and playlist \<open>e\<close> with one unavailable entry only; every other
  request is rejected. YouTube knows three queries, refuses to create a playlist titled
  \<open>Broken\<close>, remembers the items added (its world) and reports a duplicate for an item it
  already has.
\<close>

definition demo_error :: http_error where
  "demo_error = \<lparr>err_reason = None, err_detail_message = None, err_api_message = None,
                  err_message = ''Network Error''\<rparr>"

definition duplicate_error :: http_error where
  "duplicate_error = \<lparr>err_reason = Some ''playlistItemDuplicate'', err_detail_message = None,
                  err_api_message = None, err_message = ''Request failed with status code 409''\<rparr>"

definition forbidden_error :: http_error where
  "forbidden_error = \<lparr>err_reason = Some ''forbidden'', err_detail_message = None,
                  err_api_message = Some ''The video owner has disabled comments.'',
                  err_message = ''Request failed with status code 403''\<rparr>"

definition demo_track :: "string \<Rightarrow> string list \<Rightarrow> SpotifyTrack" where
  "demo_track n as =
     \<lparr>track = Some \<lparr>track_id = n, track_name = n,
                     track_artists = map (\<lambda>a. \<lparr>artist_name = a\<rparr>) as,
                     track_album = \<lparr>album_name = ''LP''\<rparr>, track_duration_ms = 1000\<rparr>\<rparr>"

definition null_track :: SpotifyTrack where
  "null_track = \<lparr>track = None\<rparr>"

definition demo_page1 :: tracks_page where
  "demo_page1 = \<lparr>page_items = [demo_track ''One'' [''X'', ''Y''], null_track],
                  page_next = Some ''https://api.spotify.com/v1/page2''\<rparr>"

definition demo_page2 :: tracks_page where
  "demo_page2 = \<lparr>page_items = [null_track, demo_track ''Two'' [''Z''],
                                 demo_track ''One'' [''X'', ''Y''], demo_track ''Three'' [''W'']],
                  page_next = None\<rparr>"

definition demo_spotify :: "item_body list spotify_client" where
  "demo_spotify =
     \<lparr>baseURL = ''https://api.spotify.com/v1'',
      spotify_get = (\<lambda>u w.
        if u = tracks_url ''a'' then (Inr demo_page1, w)
        else if u = ''/page2'' then (Inr demo_page2, w)
        else if u = tracks_url ''e'' then (Inr \<lparr>page_items = [null_track], page_next = None\<rparr>, w)
        else (Inl demo_error, w))\<rparr>"

definition demo_video :: "string \<Rightarrow> YouTubeVideo" where
  "demo_video v = \<lparr>video_ident = \<lparr>videoId = v\<rparr>,
                    video_snippet = \<lparr>snippet_title = v, channelTitle = ''ch''\<rparr>\<rparr>"

definition demo_youtube :: "item_body list youtube_client" where
  "demo_youtube =
     \<lparr>youtube_search = (\<lambda>p w.
        if sp_q p = ''One X, Y''
        then (Inr \<lparr>search_items = Some [demo_video ''v1'', demo_video ''v9'']\<rparr>, w)
        else if sp_q p = ''Two Z'' then (Inr \<lparr>search_items = Some []\<rparr>, w)
        else if sp_q p = ''Three W'' then (Inr \<lparr>search_items = Some [demo_video ''v3'']\<rparr>, w)
        else (Inl demo_error, w)),
      youtube_create = (\<lambda>b w.
        if body_title b = ''Broken'' then (Inl demo_error, w) else (Inr ''PL1'', w)),
      youtube_add = (\<lambda>b w.
        if b \<in> set w then (Inl duplicate_error, w)
        else if item_videoId b = ''v3'' then (Inl forbidden_error, w)
        else (Inr (), b # w))\<rparr>"

definition demo_playlist :: "string \<Rightarrow> string \<Rightarrow> string \<Rightarrow> SpotifyPlaylist" where
  "demo_playlist i n d =
     \<lparr>pl_id = i, pl_name = n, pl_description = d,
      pl_owner = \<lparr>owner_id = ''u'', owner_display_name = ''U''\<rparr>,
      pl_tracks = \<lparr>tracks_href = [], tracks_total = 0\<rparr>\<rparr>"

definition demo_start :: "item_body list state" where
  "demo_start = \<lparr>world = [], trace = []\<rparr>"

text \<open>The numbers printed by the summary of a playlist.\<close>

fun summary_of :: "event \<Rightarrow> nat list" where
  "summary_of (Console (LogSuccessfullyAdded n)) = [n]"
| "summary_of (Console (LogCouldNotFind n)) = [n]"
| "summary_of (Console (LogFailedToAdd n)) = [n]"
| "summary_of e = []"

definition reported_counts :: "event list \<Rightarrow> nat list" where
  "reported_counts tr = concat (map summary_of tr)"

text \<open>The ids that the selection warns about.\<close>

fun warning_of :: "event \<Rightarrow> string list" where
  "warning_of (Console (LogWarnNotFound ids)) = [ids]"
| "warning_of e = []"

definition warnings :: "event list \<Rightarrow> string list" where
  "warnings tr = concat (map warning_of tr)"


section \<open>Lemmas\<close>

lemma trace_emit [simp]: "trace (emit e s) = trace s @ [e]"
  by (simp add: emit_def)

lemma world_emit [simp]: "world (emit e s) = world s"
  by (simp add: emit_def)

lemma call_eq:
  "call rq h s = (fst (h (world s)), \<lparr>world = snd (h (world s)), trace = trace s @ [Request rq]\<rparr>)"
  by (simp add: call_def split: prod.splits)

lemma fetch_track_pages_trace:
  assumes "fetch_track_pages client url tracks s = Some y"
  shows "\<exists>evs. trace (snd y) = trace s @ evs \<and> list_all spotify_event evs"
proof (rule fetch_track_pages.raw_induct
    [where P = "\<lambda>client url tracks s y.
        \<exists>evs. trace (snd y) = trace s @ evs \<and> list_all spotify_event evs", OF _ assms])
  fix f :: "'a spotify_client \<Rightarrow> string option \<Rightarrow> SpotifyTrack list \<Rightarrow> 'a state
     \<Rightarrow> ((http_error + SpotifyTrack list) \<times> 'a state) option"
  fix client url tracks s y
  assume IH: "\<And>client url tracks s y. f client url tracks s = Some y
     \<Longrightarrow> \<exists>evs. trace (snd y) = trace s @ evs \<and> list_all spotify_event evs"
  assume body: "(case url of
        None \<Rightarrow> Some (Inr tracks, s)
      | Some u \<Rightarrow>
          if u = [] then Some (Inr tracks, s)
          else (case call (SpotifyGet u) (spotify_get client u) s of
                  (Inl error, s1) \<Rightarrow> Some (Inl error, s1)
                | (Inr data, s1) \<Rightarrow>
                    (let validItems = filter (\<lambda>item. track item \<noteq> None) (page_items data);
                         tracks' = tracks @ validItems
                     in if truthy (page_next data)
                        then f client
                               (map_option (replace_first (baseURL client) []) (page_next data))
                               tracks' (emit (Console LogNextPage) s1)
                        else f client (page_next data) tracks' s1))) = Some y"
  show "\<exists>evs. trace (snd y) = trace s @ evs \<and> list_all spotify_event evs"

  proof (cases url)
    case None
    with body show ?thesis by auto
  next
    case (Some u)
    show ?thesis
    proof (cases "u = []")
      case True
      with Some body show ?thesis by auto
    next
      case False
      show ?thesis
      proof (cases "fst (spotify_get client u (world s))")
        case (Inl e)
        with Some False body show ?thesis by (auto simp: call_eq)
      next
        case (Inr data)
        let ?s1 = "\<lparr>world = snd (spotify_get client u (world s)), trace = trace s @ [Request (SpotifyGet u)]\<rparr>"
        let ?tracks = "tracks @ filter (\<lambda>item. track item \<noteq> None) (page_items data)"
        show ?thesis
        proof (cases "truthy (page_next data)")
          case True
          with Some False Inr body
          have "f client (map_option (replace_first (baseURL client) []) (page_next data))
                  ?tracks (emit (Console LogNextPage) ?s1) = Some y"
            by (simp add: call_eq Let_def)
          from IH[OF this] obtain evs where
            "trace (snd y) = trace s @ Request (SpotifyGet u) # Console LogNextPage # evs"
            "list_all spotify_event evs" by auto
          then show ?thesis
            by (intro exI[of _ "Request (SpotifyGet u) # Console LogNextPage # evs"]) simp
        next
          case F: False
          with Some False Inr body
          have "f client (page_next data) ?tracks ?s1 = Some y"
            by (simp add: call_eq Let_def)
          from IH[OF this] obtain evs where
            "trace (snd y) = trace s @ Request (SpotifyGet u) # evs"
            "list_all spotify_event evs" by auto
          then show ?thesis
            by (intro exI[of _ "Request (SpotifyGet u) # evs"]) simp
        qed
      qed
    qed
  qed
qed

lemma youtube_requests_append [simp]:
  "youtube_requests (xs @ ys) = youtube_requests xs @ youtube_requests ys"
  by (simp add: youtube_requests_def)

lemma outcomes_append [simp]: "outcomes (xs @ ys) = outcomes xs @ outcomes ys"
  by (simp add: outcomes_def)

lemma created_playlists_append [simp]:
  "created_playlists (xs @ ys) = created_playlists xs @ created_playlists ys"
  by (simp add: created_playlists_def)

lemma search_requests_append [simp]:
  "search_requests (xs @ ys) = search_requests xs @ search_requests ys"
  by (simp add: search_requests_def)

lemma projections_Nil [simp]:
  "youtube_requests [] = []" "outcomes [] = []" "created_playlists [] = []"
  "search_requests [] = []"
  by (simp_all add: youtube_requests_def outcomes_def created_playlists_def search_requests_def)

lemma projections_Cons [simp]:
  "youtube_requests (e # es) = (if youtube_event e then [e] else []) @ youtube_requests es"
  "outcomes (e # es) = outcome_of e @ outcomes es"
  "created_playlists (e # es) = create_body_of e @ created_playlists es"
  "search_requests (e # es) = search_of e @ search_requests es"
  by (simp_all add: youtube_requests_def outcomes_def created_playlists_def search_requests_def)

lemma spotify_event_silent:
  "spotify_event e \<Longrightarrow>
     \<not> youtube_event e \<and> outcome_of e = [] \<and> create_body_of e = [] \<and> search_of e = []"
  by (cases e rule: spotify_event.cases) simp_all

lemma spotify_events_silent:
  "list_all spotify_event evs \<Longrightarrow>
     youtube_requests evs = [] \<and> outcomes evs = [] \<and> created_playlists evs = []
       \<and> search_requests evs = []"
  by (induction evs) (auto dest: spotify_event_silent)

lemma getPlaylistTracksSpotify_trace:
  assumes "getPlaylistTracksSpotify client playlistId s = Some (r, s')"
  shows "\<exists>evs. trace s' = trace s @ evs \<and> list_all spotify_event evs"
proof -
  let ?s1 = "emit (Console (LogFetchingTracks playlistId)) s"
  from assms obtain y where y: "fetch_track_pages client (Some (tracks_url playlistId)) [] ?s1 = Some y"
    by (auto simp: getPlaylistTracksSpotify_def Let_def split: option.splits)
  from fetch_track_pages_trace[OF y] obtain evs where
    evs: "trace (snd y) = trace ?s1 @ evs" "list_all spotify_event evs" by blast
  from assms y have "\<exists>e. trace s' = trace (snd y) @ [e] \<and> spotify_event e"
    by (auto simp: getPlaylistTracksSpotify_def Let_def split: prod.splits sum.splits)
  then obtain e where e: "trace s' = trace (snd y) @ [e]" "spotify_event e" by blast
  show ?thesis
    using evs e
    by (intro exI[of _ "Console (LogFetchingTracks playlistId) # evs @ [e]"]) simp
qed

lemma getPlaylistTracksSpotify_silent:
  assumes "getPlaylistTracksSpotify client playlistId s = Some (r, s')"
  shows "youtube_requests (trace s') = youtube_requests (trace s)"
    and "outcomes (trace s') = outcomes (trace s)"
    and "created_playlists (trace s') = created_playlists (trace s)"
    and "search_requests (trace s') = search_requests (trace s)"
  using getPlaylistTracksSpotify_trace[OF assms] spotify_events_silent by fastforce+

lemma searchYouTubeVideo_trace:
  "youtube_requests (trace (snd (searchYouTubeVideo client t a s)))
     = youtube_requests (trace s) @ [Request (YouTubeSearch (search_request t a))]"
  "outcomes (trace (snd (searchYouTubeVideo client t a s))) = outcomes (trace s)"
  "created_playlists (trace (snd (searchYouTubeVideo client t a s))) = created_playlists (trace s)"
  "search_requests (trace (snd (searchYouTubeVideo client t a s)))
     = search_requests (trace s) @ [search_request t a]"
  by (simp_all add: searchYouTubeVideo_def Let_def call_eq split: sum.splits option.splits list.splits)

lemma createYouTubePlaylist_trace:
  "youtube_requests (trace (snd (createYouTubePlaylist client t d s)))
     = youtube_requests (trace s) @ [Request (YouTubeCreatePlaylist (create_request t d))]"
  "outcomes (trace (snd (createYouTubePlaylist client t d s))) = outcomes (trace s)"
  "created_playlists (trace (snd (createYouTubePlaylist client t d s)))
     = created_playlists (trace s) @ [create_request t d]"
  "search_requests (trace (snd (createYouTubePlaylist client t d s))) = search_requests (trace s)"
  by (simp_all add: createYouTubePlaylist_def Let_def call_eq split: sum.splits)

lemma addVideoToYouTubePlaylist_trace:
  "youtube_requests (trace (snd (addVideoToYouTubePlaylist client p v s)))
     = youtube_requests (trace s) @ [Request (YouTubeAddItem (add_request p v))]"
  "outcomes (trace (snd (addVideoToYouTubePlaylist client p v s))) = outcomes (trace s)"
  "created_playlists (trace (snd (addVideoToYouTubePlaylist client p v s)))
     = created_playlists (trace s)"
  "search_requests (trace (snd (addVideoToYouTubePlaylist client p v s))) = search_requests (trace s)"
  by (simp_all add: addVideoToYouTubePlaylist_def Let_def call_eq split: sum.splits)

lemma transfer_item_null:
  "track item = None \<Longrightarrow> transfer_item yt pid len i item cs = cs"
  by (simp add: transfer_item_def split: prod.splits)

lemma transfer_item_not_found:
  assumes "track item = Some t"
      and "\<not> found_video (fst (searchYouTubeVideo yt (track_name t) (artistNames_of t)
                (emit (Delay 300) s)))"
  shows "transfer_item yt pid len i item (c, s) =
           (c\<lparr>notFoundCount := notFoundCount c + 1\<rparr>,
            emit (Console (LogNotFound (i + 1) len (track_name t) (artistNames_of t)))
              (snd (searchYouTubeVideo yt (track_name t) (artistNames_of t)
                 (emit (Delay 300) s))))"
  using assms by (simp add: transfer_item_def Let_def case_prod_beta found_video_def)

lemma transfer_item_found:
  assumes "track item = Some t"
      and "searchYouTubeVideo yt (track_name t) (artistNames_of t) (emit (Delay 300) s)
             = (Some v, s2)"
      and "videoId (video_ident v) \<noteq> []"
  shows "transfer_item yt pid len i item (c, s) =
           (if fst (addVideoToYouTubePlaylist yt pid (videoId (video_ident v)) s2)
            then (c\<lparr>addedCount := addedCount c + 1\<rparr>,
                  emit (Console (LogAdded (i + 1) len (track_name t) (artistNames_of t)
                     (snippet_title (video_snippet v))))
                    (snd (addVideoToYouTubePlaylist yt pid (videoId (video_ident v)) s2)))
            else (c\<lparr>failedCount := failedCount c + 1\<rparr>,
                  emit (Console (LogFoundButFailed (i + 1) len (track_name t)
                     (artistNames_of t)))
                    (snd (addVideoToYouTubePlaylist yt pid (videoId (video_ident v)) s2))))"
  using assms by (simp add: transfer_item_def Let_def case_prod_beta)

lemma transfer_item_available:
  assumes item: "track item = Some t"
      and step: "transfer_item yt pid len i item (c, s) = (c', s')"
  shows "\<exists>out. outcomes (trace s') = outcomes (trace s) @ [out]
           \<and> addedCount c' = addedCount c + count_list [out] Added
           \<and> notFoundCount c' = notFoundCount c + count_list [out] NotFound
           \<and> failedCount c' = failedCount c + count_list [out] AddFailed"
    and "created_playlists (trace s') = created_playlists (trace s)"
    and "search_requests (trace s')
           = search_requests (trace s) @ [search_request (track_name t) (artistNames_of t)]"
proof -
  let ?search = "searchYouTubeVideo yt (track_name t) (artistNames_of t) (emit (Delay 300) s)"
  have s2: "outcomes (trace (snd ?search)) = outcomes (trace s)"
    "created_playlists (trace (snd ?search)) = created_playlists (trace s)"
    "search_requests (trace (snd ?search))
       = search_requests (trace s) @ [search_request (track_name t) (artistNames_of t)]"
    by (simp_all add: searchYouTubeVideo_trace)
  have "(\<exists>out. outcomes (trace s') = outcomes (trace s) @ [out]
           \<and> addedCount c' = addedCount c + count_list [out] Added
           \<and> notFoundCount c' = notFoundCount c + count_list [out] NotFound
           \<and> failedCount c' = failedCount c + count_list [out] AddFailed)
        \<and> created_playlists (trace s') = created_playlists (trace s)
        \<and> search_requests (trace s')
           = search_requests (trace s) @ [search_request (track_name t) (artistNames_of t)]"
  proof (cases "found_video (fst ?search)")
    case False
    from transfer_item_not_found[OF item False, of pid len i c] step
    have c': "c' = c\<lparr>notFoundCount := notFoundCount c + 1\<rparr>"
      and s': "s' = emit (Console (LogNotFound (i + 1) len (track_name t) (artistNames_of t)))
                     (snd ?search)"
      by simp_all
    have "outcomes (trace s') = outcomes (trace s) @ [NotFound]"
      by (simp add: s' s2)
    moreover have "created_playlists (trace s') = created_playlists (trace s)"
      by (simp add: s' s2)
    moreover have "search_requests (trace s')
           = search_requests (trace s) @ [search_request (track_name t) (artistNames_of t)]"
      by (simp add: s' s2)
    ultimately show ?thesis using c' by (intro conjI exI[of _ NotFound]) simp_all
  next
    case True
    then obtain v where v: "fst ?search = Some v" "videoId (video_ident v) \<noteq> []"
      by (auto simp: found_video_def split: option.splits)
    then have search: "?search = (Some v, snd ?search)"
      by (simp add: prod_eq_iff)
    let ?add = "addVideoToYouTubePlaylist yt pid (videoId (video_ident v)) (snd ?search)"
    have s3: "outcomes (trace (snd ?add)) = outcomes (trace s)"
      "created_playlists (trace (snd ?add)) = created_playlists (trace s)"
      "search_requests (trace (snd ?add))
         = search_requests (trace s) @ [search_request (track_name t) (artistNames_of t)]"
      by (simp_all add: addVideoToYouTubePlaylist_trace s2)
    show ?thesis
    proof (cases "fst ?add")
      case True
      from transfer_item_found[OF item search v(2), of pid len i c] step True
      have c': "c' = c\<lparr>addedCount := addedCount c + 1\<rparr>"
        and s': "s' = emit (Console (LogAdded (i + 1) len (track_name t) (artistNames_of t)
                     (snippet_title (video_snippet v)))) (snd ?add)"
        by simp_all
      have "outcomes (trace s') = outcomes (trace s) @ [Added]"
        by (simp add: s' s3)
      moreover have "created_playlists (trace s') = created_playlists (trace s)"
        by (simp add: s' s3)
      moreover have "search_requests (trace s')
           = search_requests (trace s) @ [search_request (track_name t) (artistNames_of t)]"
        by (simp add: s' s3)
      ultimately show ?thesis using c' by (intro conjI exI[of _ Added]) simp_all
    next
      case False
      from transfer_item_found[OF item search v(2), of pid len i c] step False
      have c': "c' = c\<lparr>failedCount := failedCount c + 1\<rparr>"
        and s': "s' = emit (Console (LogFoundButFailed (i + 1) len (track_name t)
                     (artistNames_of t))) (snd ?add)"
        by simp_all
      have "outcomes (trace s') = outcomes (trace s) @ [AddFailed]"
        by (simp add: s' s3)
      moreover have "created_playlists (trace s') = created_playlists (trace s)"
        by (simp add: s' s3)
      moreover have "search_requests (trace s')
           = search_requests (trace s) @ [search_request (track_name t) (artistNames_of t)]"
        by (simp add: s' s3)
      ultimately show ?thesis using c' by (intro conjI exI[of _ AddFailed]) simp_all
    qed
  qed
  then show "\<exists>out. outcomes (trace s') = outcomes (trace s) @ [out]
           \<and> addedCount c' = addedCount c + count_list [out] Added
           \<and> notFoundCount c' = notFoundCount c + count_list [out] NotFound
           \<and> failedCount c' = failedCount c + count_list [out] AddFailed"
    and "created_playlists (trace s') = created_playlists (trace s)"
    and "search_requests (trace s')
           = search_requests (trace s) @ [search_request (track_name t) (artistNames_of t)]"
    by blast+
qed

lemma count_outcomes:
  "count_list os Added + count_list os NotFound + count_list os AddFailed = length os"
proof (induction os)
  case Nil
  show ?case by simp
next
  case (Cons out os)
  then show ?case by (cases out) simp_all
qed

lemma transfer_loop_outcomes:
  "transfer_loop yt pid len i tracks (c, s) = (c', s') \<Longrightarrow>
     \<exists>os. outcomes (trace s') = outcomes (trace s) @ os
        \<and> length os = length (filter (\<lambda>item. track item \<noteq> None) tracks)
        \<and> addedCount c' = addedCount c + count_list os Added
        \<and> notFoundCount c' = notFoundCount c + count_list os NotFound
        \<and> failedCount c' = failedCount c + count_list os AddFailed"
proof (induction tracks arbitrary: i c s)
  case Nil
  then show ?case by simp
next
  case (Cons item rest)
  obtain c1 s1 where step: "transfer_item yt pid len i item (c, s) = (c1, s1)"
    by (cases "transfer_item yt pid len i item (c, s)")
  with Cons.prems have rest: "transfer_loop yt pid len (i + 1) rest (c1, s1) = (c', s')"
    by simp
  from Cons.IH[OF rest] obtain os where os:
    "outcomes (trace s') = outcomes (trace s1) @ os"
    "length os = length (filter (\<lambda>item. track item \<noteq> None) rest)"
    "addedCount c' = addedCount c1 + count_list os Added"
    "notFoundCount c' = notFoundCount c1 + count_list os NotFound"
    "failedCount c' = failedCount c1 + count_list os AddFailed"
    by blast
  show ?case
  proof (cases "track item")
    case None
    with step have "c1 = c" "s1 = s" by (simp_all add: transfer_item_null)
    with os None show ?thesis by auto
  next
    case (Some t)
    from transfer_item_available(1)[OF Some step] obtain out where out:
      "outcomes (trace s1) = outcomes (trace s) @ [out]"
      "addedCount c1 = addedCount c + count_list [out] Added"
      "notFoundCount c1 = notFoundCount c + count_list [out] NotFound"
      "failedCount c1 = failedCount c + count_list [out] AddFailed"
      by blast
    show ?thesis
      using os out Some
      by (intro exI[of _ "out # os"]) (cases out; simp)
  qed
qed

lemma transfer_loop_created:
  "transfer_loop yt pid len i tracks (c, s) = (c', s') \<Longrightarrow>
     created_playlists (trace s') = created_playlists (trace s)"
proof (induction tracks arbitrary: i c s)
  case Nil
  then show ?case by simp
next
  case (Cons item rest)
  obtain c1 s1 where step: "transfer_item yt pid len i item (c, s) = (c1, s1)"
    by (cases "transfer_item yt pid len i item (c, s)")
  with Cons.prems have rest: "transfer_loop yt pid len (i + 1) rest (c1, s1) = (c', s')"
    by simp
  have "created_playlists (trace s1) = created_playlists (trace s)"
  proof (cases "track item")
    case None
    with step show ?thesis by (simp add: transfer_item_null)
  next
    case (Some t)
    from transfer_item_available(2)[OF Some step] show ?thesis .
  qed
  with Cons.IH[OF rest] show ?case by simp
qed

lemma join_butlast:
  "join sep xs =
     (if xs = [] then [] else concat (map (\<lambda>x. x @ sep) (butlast xs)) @ last xs)"
  by (induction sep xs rule: join.induct) simp_all

lemma artistNames_of_butlast:
  "artistNames_of t =
     (if track_artists t = [] then []
      else concat (map (\<lambda>a. artist_name a @ '', '') (butlast (track_artists t)))
             @ artist_name (last (track_artists t)))"
  by (simp add: artistNames_of_def join_butlast map_butlast last_map comp_def)

lemma create_request_description: "body_description (create_request title description) \<noteq> []"
  by (simp add: create_request_def)

lemma transferPlaylist_created:
  assumes "transferPlaylist sp yt p s = Some (r, s')"
  shows "created_playlists (trace s') = created_playlists (trace s)
         \<or> created_playlists (trace s') = created_playlists (trace s) @
              [create_request (pl_name p)
                 (if pl_description p \<noteq> [] then pl_description p
                  else ''Migrated from Spotify: '' @ pl_name p)]"
proof -
  let ?s1 = "emit (Console (LogProcessing (pl_name p) (pl_id p))) s"
  from assms obtain fr s2 where fetch: "getPlaylistTracksSpotify sp (pl_id p) ?s1 = Some (fr, s2)"
    by (auto simp: transferPlaylist_def Let_def split: option.splits)
  from getPlaylistTracksSpotify_silent(3)[OF fetch]
  have s2: "created_playlists (trace s2) = created_playlists (trace s)" by simp
  show ?thesis
  proof (cases fr)
    case (Inl e)
    with assms fetch have "s' = s2" by (simp add: transferPlaylist_def Let_def)
    with s2 show ?thesis by simp
  next
    case (Inr tracks)
    let ?d = "if pl_description p \<noteq> [] then pl_description p
              else ''Migrated from Spotify: '' @ pl_name p"
    let ?create = "createYouTubePlaylist yt (pl_name p) ?d s2"
    have s3: "created_playlists (trace (snd ?create))
                = created_playlists (trace s) @ [create_request (pl_name p) ?d]"
      by (simp add: createYouTubePlaylist_trace s2)
    show ?thesis
    proof (cases "tracks = []")
      case True
      with assms fetch Inr have "s' = emit (Console (LogEmptySkipping (pl_name p))) s2"
        by (simp add: transferPlaylist_def Let_def)
      with s2 show ?thesis by simp
    next
      case False
      show ?thesis
      proof (cases "truthy (fst ?create)")
        case F: False
        with assms fetch Inr False
        have "s' = emit (Console (LogCreateFailedSkipping (pl_name p))) (snd ?create)"
          by (simp add: transferPlaylist_def Let_def case_prod_beta)
        with s3 show ?thesis by simp
      next
        case True
        let ?s4 = "emit (Console (LogAttempting (length tracks))) (snd ?create)"
        let ?loop = "transfer_loop yt (the (fst ?create)) (length tracks) 0 tracks
                       (\<lparr>addedCount = 0, notFoundCount = 0, failedCount = 0\<rparr>, ?s4)"
        have "created_playlists (trace (snd ?loop)) = created_playlists (trace ?s4)"
          by (rule transfer_loop_created[of yt _ _ 0 tracks _ ?s4 "fst ?loop"]) simp
        moreover from assms fetch Inr False True
        have "s' = report (pl_name p) (the (fst ?create)) (fst ?loop) (snd ?loop)"
          by (simp add: transferPlaylist_def Let_def case_prod_beta)
        ultimately show ?thesis using s3 by (simp add: report_def Let_def)
      qed
    qed
  qed
qed

lemma fetch_track_pages_done:
  "fetch_track_pages client None tracks s = Some (Inr tracks, s)"
  by (subst fetch_track_pages.simps) simp

lemma fetch_track_pages_serves:
  "serves client url pages (world s) \<Longrightarrow>
     \<exists>s'. fetch_track_pages client (Some url) tracks s
            = Some (Inr (tracks @ filter (\<lambda>item. track item \<noteq> None)
                                    (concat (map page_items pages))), s')"
proof (induction pages arbitrary: url tracks s)
  case Nil
  then show ?case by simp
next
  case (Cons p ps)
  let ?s1 = "\<lparr>world = snd (spotify_get client url (world s)),
              trace = trace s @ [Request (SpotifyGet url)]\<rparr>"
  let ?tracks = "tracks @ filter (\<lambda>item. track item \<noteq> None) (page_items p)"
  from Cons.prems have url: "url \<noteq> []" and p: "fst (spotify_get client url (world s)) = Inr p"
    by simp_all
  show ?case
  proof (cases "page_next p")
    case None
    with Cons.prems have "ps = []" by simp
    with url p None show ?thesis
      by (subst fetch_track_pages.simps) (simp add: call_eq Let_def fetch_track_pages_done)
  next
    case (Some n)
    with Cons.prems have n: "n \<noteq> []"
      and rest: "serves client (replace_first (baseURL client) [] n) ps (world ?s1)"
      by simp_all
    from rest have "serves client (replace_first (baseURL client) [] n) ps
                      (world (emit (Console LogNextPage) ?s1))"
      by simp
    from Cons.IH[OF this, of ?tracks] obtain s' where
      "fetch_track_pages client (Some (replace_first (baseURL client) [] n)) ?tracks
         (emit (Console LogNextPage) ?s1)
       = Some (Inr (?tracks @ filter (\<lambda>item. track item \<noteq> None)
                                   (concat (map page_items ps))), s')"
      by blast
    with url p Some n show ?thesis
      by (subst fetch_track_pages.simps) (simp add: call_eq Let_def)
  qed
qed

lemma getPlaylistTracksSpotify_serves:
  assumes "serves client (tracks_url playlistId) pages (world s)"
  shows "\<exists>s'. getPlaylistTracksSpotify client playlistId s
            = Some (Inr (filter (\<lambda>item. track item \<noteq> None) (concat (map page_items pages))),
                    emit (Console (LogFoundValid (length
                       (filter (\<lambda>item. track item \<noteq> None) (concat (map page_items pages)))))) s')"
proof -
  let ?s1 = "emit (Console (LogFetchingTracks playlistId)) s"
  from assms have "serves client (tracks_url playlistId) pages (world ?s1)" by simp
  from fetch_track_pages_serves[OF this, of "[]"] obtain s' where
    "fetch_track_pages client (Some (tracks_url playlistId)) [] ?s1
       = Some (Inr (filter (\<lambda>item. track item \<noteq> None) (concat (map page_items pages))), s')"
    by auto
  then show ?thesis
    by (intro exI[of _ s']) (simp add: getPlaylistTracksSpotify_def Let_def)
qed

lemma demo_serves: "serves demo_spotify (tracks_url ''a'') [demo_page1, demo_page2] []"
  by (simp add: demo_spotify_def demo_page1_def demo_page2_def tracks_url_def)

lemma demo_fetch_a:
  "getPlaylistTracksSpotify demo_spotify ''a'' s =
     Some (Inr [demo_track ''One'' [''X'', ''Y''], demo_track ''Two'' [''Z''],
                demo_track ''One'' [''X'', ''Y''], demo_track ''Three'' [''W'']],
           \<lparr>world = world s,
            trace = trace s @ [Console (LogFetchingTracks ''a''),
              Request (SpotifyGet (tracks_url ''a'')), Console LogNextPage,
              Request (SpotifyGet ''/page2''), Console (LogFoundValid 4)]\<rparr>)"
  unfolding getPlaylistTracksSpotify_def
  apply (subst fetch_track_pages.simps)
  apply (subst fetch_track_pages.simps)
  apply (simp add: fetch_track_pages_done Let_def call_eq emit_def demo_spotify_def
      demo_page1_def demo_page2_def tracks_url_def null_track_def demo_track_def)
  done

lemma demo_fetch_e:
  "getPlaylistTracksSpotify demo_spotify ''e'' s =
     Some (Inr [],
           \<lparr>world = world s,
            trace = trace s @ [Console (LogFetchingTracks ''e''),
              Request (SpotifyGet (tracks_url ''e'')), Console (LogFoundValid 0)]\<rparr>)"
  unfolding getPlaylistTracksSpotify_def
  apply (subst fetch_track_pages.simps)
  apply (simp add: fetch_track_pages_done Let_def call_eq emit_def demo_spotify_def
      tracks_url_def null_track_def)
  done

lemma demo_fetch_x:
  "getPlaylistTracksSpotify demo_spotify ''x'' s =
     Some (Inl (Error ''Could not fetch tracks for playlist x.''),
           \<lparr>world = world s,
            trace = trace s @ [Console (LogFetchingTracks ''x''),
              Request (SpotifyGet (tracks_url ''x'')),
              Console (LogFetchError ''x'' demo_error)]\<rparr>)"
  unfolding getPlaylistTracksSpotify_def
  apply (subst fetch_track_pages.simps)
  apply (simp add: Let_def call_eq emit_def demo_spotify_def tracks_url_def)
  done

lemma demo_search_one:
  "searchYouTubeVideo demo_youtube ''One'' ''X, Y'' s =
     (Some (demo_video ''v1''),
      \<lparr>world = world s,
       trace = trace s @ [Console (LogSearching ''One X, Y''),
         Request (YouTubeSearch (search_request ''One'' ''X, Y'')),
         Console (LogFound ''v1'' ''v1'')]\<rparr>)"
  by (simp add: searchYouTubeVideo_def Let_def call_eq emit_def demo_youtube_def
      search_request_def demo_video_def)

lemma demo_search_two:
  "searchYouTubeVideo demo_youtube ''Two'' ''Z'' s =
     (None,
      \<lparr>world = world s,
       trace = trace s @ [Console (LogSearching ''Two Z''),
         Request (YouTubeSearch (search_request ''Two'' ''Z'')),
         Console (LogNoRelevant ''Two Z'')]\<rparr>)"
  by (simp add: searchYouTubeVideo_def Let_def call_eq emit_def demo_youtube_def
      search_request_def)

lemma demo_search_three:
  "searchYouTubeVideo demo_youtube ''Three'' ''W'' s =
     (Some (demo_video ''v3''),
      \<lparr>world = world s,
       trace = trace s @ [Console (LogSearching ''Three W''),
         Request (YouTubeSearch (search_request ''Three'' ''W'')),
         Console (LogFound ''v3'' ''v3'')]\<rparr>)"
  by (simp add: searchYouTubeVideo_def Let_def call_eq emit_def demo_youtube_def
      search_request_def demo_video_def)

lemma demo_search_error:
  "searchYouTubeVideo demo_youtube ''Four'' ''V'' s =
     (None,
      \<lparr>world = world s,
       trace = trace s @ [Console (LogSearching ''Four V''),
         Request (YouTubeSearch (search_request ''Four'' ''V'')),
         Console (LogSearchError ''Four V'' ''Network Error'')]\<rparr>)"
  by (simp add: searchYouTubeVideo_def Let_def call_eq emit_def demo_youtube_def
      search_request_def demo_error_def)

lemma demo_add_first:
  "world s = [] \<Longrightarrow>
   addVideoToYouTubePlaylist demo_youtube ''PL1'' ''v1'' s =
     (True, \<lparr>world = [add_request ''PL1'' ''v1''],
             trace = trace s @ [Request (YouTubeAddItem (add_request ''PL1'' ''v1''))]\<rparr>)"
  by (simp add: addVideoToYouTubePlaylist_def Let_def call_eq demo_youtube_def add_request_def)

lemma demo_add_second:
  "world s = [add_request ''PL1'' ''v1''] \<Longrightarrow>
   addVideoToYouTubePlaylist demo_youtube ''PL1'' ''v1'' s =
     (True, \<lparr>world = [add_request ''PL1'' ''v1''],
             trace = trace s @ [Request (YouTubeAddItem (add_request ''PL1'' ''v1'')),
                                Console (LogAlreadyExists ''v1'' ''PL1'')]\<rparr>)"
  by (simp add: addVideoToYouTubePlaylist_def Let_def call_eq emit_def demo_youtube_def
      add_request_def duplicate_error_def)

lemma demo_add_forbidden:
  "world s = [add_request ''PL1'' ''v1''] \<Longrightarrow>
   addVideoToYouTubePlaylist demo_youtube ''PL1'' ''v3'' s =
     (False, \<lparr>world = [add_request ''PL1'' ''v1''],
             trace = trace s @ [Request (YouTubeAddItem (add_request ''PL1'' ''v3'')),
                                Console (LogAddSoftError ''v3'')]\<rparr>)"
  by (simp add: addVideoToYouTubePlaylist_def Let_def call_eq emit_def demo_youtube_def
      add_request_def forbidden_error_def)

lemma demo_item1:
  "world s = [] \<Longrightarrow>
   transfer_item demo_youtube ''PL1'' len i (demo_track ''One'' [''X'', ''Y'']) (c, s) =
     (c\<lparr>addedCount := addedCount c + 1\<rparr>,
      \<lparr>world = [add_request ''PL1'' ''v1''],
       trace = trace s @ [Delay 300, Console (LogSearching ''One X, Y''),
         Request (YouTubeSearch (search_request ''One'' ''X, Y'')),
         Console (LogFound ''v1'' ''v1''),
         Request (YouTubeAddItem (add_request ''PL1'' ''v1'')),
         Console (LogAdded (i + 1) len ''One'' ''X, Y'' ''v1'')]\<rparr>)"
  by (simp add: transfer_item_def demo_track_def artistNames_of_def Let_def demo_search_one
      demo_add_first demo_video_def emit_def)

lemma demo_item_dup:
  "world s = [add_request ''PL1'' ''v1''] \<Longrightarrow>
   transfer_item demo_youtube ''PL1'' len i (demo_track ''One'' [''X'', ''Y'']) (c, s) =
     (c\<lparr>addedCount := addedCount c + 1\<rparr>,
      \<lparr>world = [add_request ''PL1'' ''v1''],
       trace = trace s @ [Delay 300, Console (LogSearching ''One X, Y''),
         Request (YouTubeSearch (search_request ''One'' ''X, Y'')),
         Console (LogFound ''v1'' ''v1''),
         Request (YouTubeAddItem (add_request ''PL1'' ''v1'')),
         Console (LogAlreadyExists ''v1'' ''PL1''),
         Console (LogAdded (i + 1) len ''One'' ''X, Y'' ''v1'')]\<rparr>)"
  by (simp add: transfer_item_def demo_track_def artistNames_of_def Let_def demo_search_one
      demo_add_second demo_video_def emit_def)

lemma demo_item2:
  "transfer_item demo_youtube ''PL1'' len i (demo_track ''Two'' [''Z'']) (c, s) =
     (c\<lparr>notFoundCount := notFoundCount c + 1\<rparr>,
      \<lparr>world = world s,
       trace = trace s @ [Delay 300, Console (LogSearching ''Two Z''),
         Request (YouTubeSearch (search_request ''Two'' ''Z'')),
         Console (LogNoRelevant ''Two Z''),
         Console (LogNotFound (i + 1) len ''Two'' ''Z'')]\<rparr>)"
  by (simp add: transfer_item_def demo_track_def artistNames_of_def Let_def demo_search_two emit_def)

lemma demo_item3:
  "world s = [add_request ''PL1'' ''v1''] \<Longrightarrow>
   transfer_item demo_youtube ''PL1'' len i (demo_track ''Three'' [''W'']) (c, s) =
     (c\<lparr>failedCount := failedCount c + 1\<rparr>,
      \<lparr>world = [add_request ''PL1'' ''v1''],
       trace = trace s @ [Delay 300, Console (LogSearching ''Three W''),
         Request (YouTubeSearch (search_request ''Three'' ''W'')),
         Console (LogFound ''v3'' ''v3''),
         Request (YouTubeAddItem (add_request ''PL1'' ''v3'')),
         Console (LogAddSoftError ''v3''),
         Console (LogFoundButFailed (i + 1) len ''Three'' ''W'')]\<rparr>)"
  by (simp add: transfer_item_def demo_track_def artistNames_of_def Let_def demo_search_three
      demo_add_forbidden demo_video_def emit_def)

lemma reported_counts_simps [simp]:
  "reported_counts [] = []"
  "reported_counts (e # es) = summary_of e @ reported_counts es"
  "reported_counts (xs @ ys) = reported_counts xs @ reported_counts ys"
  by (simp_all add: reported_counts_def)

lemma spotify_event_unreported: "spotify_event e \<Longrightarrow> summary_of e = []"
  by (cases e rule: spotify_event.cases) simp_all

lemma spotify_events_unreported: "list_all spotify_event evs \<Longrightarrow> reported_counts evs = []"
  by (induction evs) (auto dest: spotify_event_unreported)

lemma getPlaylistTracksSpotify_unreported:
  assumes "getPlaylistTracksSpotify client playlistId s = Some (r, s')"
  shows "reported_counts (trace s') = reported_counts (trace s)"
  using getPlaylistTracksSpotify_trace[OF assms] spotify_events_unreported by fastforce

lemma demo_create:
  "title \<noteq> ''Broken'' \<Longrightarrow>
   createYouTubePlaylist demo_youtube title d s =
     (Some ''PL1'',
      \<lparr>world = world s,
       trace = trace s @ [Console (LogCreating title),
         Request (YouTubeCreatePlaylist (create_request title d)),
         Console (LogCreated ''PL1'')]\<rparr>)"
  by (simp add: createYouTubePlaylist_def Let_def call_eq emit_def demo_youtube_def
      create_request_def)

lemma demo_create_broken:
  "createYouTubePlaylist demo_youtube ''Broken'' d s =
     (None,
      \<lparr>world = world s,
       trace = trace s @ [Console (LogCreating ''Broken''),
         Request (YouTubeCreatePlaylist (create_request ''Broken'' d)),
         Console (LogCreateError ''Broken'' ''Network Error'')]\<rparr>)"
  by (simp add: createYouTubePlaylist_def Let_def call_eq emit_def demo_youtube_def
      create_request_def demo_error_def)

lemma demo_loop_result:
  assumes "world s = []"
  shows "fst (transfer_loop demo_youtube ''PL1'' len i
      [demo_track ''One'' [''X'', ''Y''], demo_track ''Two'' [''Z''],
       demo_track ''One'' [''X'', ''Y''], demo_track ''Three'' [''W'']]
      (\<lparr>addedCount = 0, notFoundCount = 0, failedCount = 0\<rparr>, s))
    = \<lparr>addedCount = 2, notFoundCount = 1, failedCount = 1\<rparr>"
    and "world (snd (transfer_loop demo_youtube ''PL1'' len i
      [demo_track ''One'' [''X'', ''Y''], demo_track ''Two'' [''Z''],
       demo_track ''One'' [''X'', ''Y''], demo_track ''Three'' [''W'']]
      (\<lparr>addedCount = 0, notFoundCount = 0, failedCount = 0\<rparr>, s)))
    = [add_request ''PL1'' ''v1'']"
    and "outcomes (trace (snd (transfer_loop demo_youtube ''PL1'' len i
      [demo_track ''One'' [''X'', ''Y''], demo_track ''Two'' [''Z''],
       demo_track ''One'' [''X'', ''Y''], demo_track ''Three'' [''W'']]
      (\<lparr>addedCount = 0, notFoundCount = 0, failedCount = 0\<rparr>, s))))
    = outcomes (trace s) @ [Added, NotFound, Added, AddFailed]"
    and "created_playlists (trace (snd (transfer_loop demo_youtube ''PL1'' len i
      [demo_track ''One'' [''X'', ''Y''], demo_track ''Two'' [''Z''],
       demo_track ''One'' [''X'', ''Y''], demo_track ''Three'' [''W'']]
      (\<lparr>addedCount = 0, notFoundCount = 0, failedCount = 0\<rparr>, s))))
    = created_playlists (trace s)"
    and "reported_counts (trace (snd (transfer_loop demo_youtube ''PL1'' len i
      [demo_track ''One'' [''X'', ''Y''], demo_track ''Two'' [''Z''],
       demo_track ''One'' [''X'', ''Y''], demo_track ''Three'' [''W'']]
      (\<lparr>addedCount = 0, notFoundCount = 0, failedCount = 0\<rparr>, s))))
    = reported_counts (trace s)"
  using assms by (simp_all add: demo_item1 demo_item2 demo_item_dup demo_item3)

lemma demo_run_a:
  "\<exists>s'. transferPlaylist demo_spotify demo_youtube (demo_playlist ''a'' ''Mix'' []) demo_start
          = Some (Inr (Transferred ''PL1''
                    \<lparr>addedCount = 2, notFoundCount = 1, failedCount = 1\<rparr>), s')
      \<and> world s' = [add_request ''PL1'' ''v1'']
      \<and> created_playlists (trace s') = [create_request ''Mix'' ''Migrated from Spotify: Mix'']
      \<and> outcomes (trace s') = [Added, NotFound, Added, AddFailed]
      \<and> reported_counts (trace s') = [2, 1, 1]"
  by (simp add: transferPlaylist_def Let_def demo_playlist_def demo_start_def demo_fetch_a
      emit_def demo_create case_prod_beta demo_loop_result report_def
      del: transfer_loop.simps)

lemma demo_run_e:
  "transferPlaylist demo_spotify demo_youtube (demo_playlist ''e'' ''Empty'' d) s
     = Some (Inr Skipped,
         \<lparr>world = world s,
          trace = trace s @ [Console (LogProcessing ''Empty'' ''e''),
                  Console (LogFetchingTracks ''e''),
                  Request (SpotifyGet (tracks_url ''e'')), Console (LogFoundValid 0),
                  Console (LogEmptySkipping ''Empty'')]\<rparr>)"
  by (simp add: transferPlaylist_def Let_def demo_playlist_def demo_fetch_e emit_def)

lemma addVideo_duplicate:
  assumes "err_reason e = Some ''duplicate'' \<or> err_reason e = Some ''playlistItemDuplicate''"
      and "fst (youtube_add yt (add_request pid v) (world s)) = Inl e"
  shows "fst (addVideoToYouTubePlaylist yt pid v s) = True"
  using assms by (auto simp: addVideoToYouTubePlaylist_def Let_def call_eq)

lemma addVideo_ok:
  assumes "fst (youtube_add yt (add_request pid v) (world s)) = Inr u"
  shows "fst (addVideoToYouTubePlaylist yt pid v s) = True"
  using assms by (simp add: addVideoToYouTubePlaylist_def Let_def call_eq)

lemma warnings_simps [simp]:
  "warnings [] = []"
  "warnings (e # es) = warning_of e @ warnings es"
  "warnings (xs @ ys) = warnings xs @ warnings ys"
  by (simp_all add: warnings_def)




lemma youtube_calls_unreported:
  "reported_counts (trace (snd (searchYouTubeVideo yt t a s))) = reported_counts (trace s)"
  "reported_counts (trace (snd (createYouTubePlaylist yt t d s))) = reported_counts (trace s)"
  "reported_counts (trace (snd (addVideoToYouTubePlaylist yt p v s))) = reported_counts (trace s)"
  by (simp_all add: searchYouTubeVideo_def createYouTubePlaylist_def
      addVideoToYouTubePlaylist_def Let_def call_eq
      split: sum.splits option.splits list.splits)

lemma transfer_item_unreported:
  "reported_counts (trace (snd (transfer_item yt pid len i item (c, s))))
     = reported_counts (trace s)"
proof (cases "track item")
  case None
  then show ?thesis by (simp add: transfer_item_null)
next
  case (Some t)
  let ?search = "searchYouTubeVideo yt (track_name t) (artistNames_of t) (emit (Delay 300) s)"
  have s2: "reported_counts (trace (snd ?search)) = reported_counts (trace s)"
    by (simp add: youtube_calls_unreported)
  show ?thesis
  proof (cases "found_video (fst ?search)")
    case False
    from transfer_item_not_found[OF Some False, of pid len i c] s2
    show ?thesis by simp
  next
    case True
    then obtain v where v: "fst ?search = Some v" "videoId (video_ident v) \<noteq> []"
      by (auto simp: found_video_def split: option.splits)
    then have search: "?search = (Some v, snd ?search)"
      by (simp add: prod_eq_iff)
    from transfer_item_found[OF Some search v(2), of pid len i c] s2
    show ?thesis by (simp add: youtube_calls_unreported)
  qed
qed

lemma transfer_loop_unreported:
  "reported_counts (trace (snd (transfer_loop yt pid len i tracks (c, s))))
     = reported_counts (trace s)"
proof (induction tracks arbitrary: i c s)
  case Nil
  show ?case by simp
next
  case (Cons item rest)
  obtain c1 s1 where step: "transfer_item yt pid len i item (c, s) = (c1, s1)"
    by (cases "transfer_item yt pid len i item (c, s)")
  with transfer_item_unreported[of yt pid len i item c s]
  have "reported_counts (trace s1) = reported_counts (trace s)" by simp
  with Cons.IH[of "i + 1" c1 s1] step show ?case by simp
qed

lemma transferPlaylist_transferred:
  assumes fetch: "getPlaylistTracksSpotify sp (pl_id p)
                    (emit (Console (LogProcessing (pl_name p) (pl_id p))) s)
                  = Some (Inr tracks, s2)"
      and run: "transferPlaylist sp yt p s = Some (Inr (Transferred pid c), s')"
  shows "\<exists>s4. world s4 = world (snd (createYouTubePlaylist yt (pl_name p)
                   (if pl_description p \<noteq> [] then pl_description p
                    else ''Migrated from Spotify: '' @ pl_name p) s2))
             \<and> outcomes (trace s4) = outcomes (trace s)
             \<and> reported_counts (trace s4) = reported_counts (trace s)
             \<and> c = fst (transfer_loop yt pid (length tracks) 0 tracks
                      (\<lparr>addedCount = 0, notFoundCount = 0, failedCount = 0\<rparr>, s4))
             \<and> s' = report (pl_name p) pid c
                      (snd (transfer_loop yt pid (length tracks) 0 tracks
                         (\<lparr>addedCount = 0, notFoundCount = 0, failedCount = 0\<rparr>, s4)))"
proof -
  let ?d = "if pl_description p \<noteq> [] then pl_description p
            else ''Migrated from Spotify: '' @ pl_name p"
  let ?create = "createYouTubePlaylist yt (pl_name p) ?d s2"
  let ?s4 = "emit (Console (LogAttempting (length tracks))) (snd ?create)"
  let ?loop = "transfer_loop yt (the (fst ?create)) (length tracks) 0 tracks
                 (\<lparr>addedCount = 0, notFoundCount = 0, failedCount = 0\<rparr>, ?s4)"
  from fetch run have tracks: "tracks \<noteq> []"
    by (auto simp: transferPlaylist_def Let_def)
  from fetch run tracks have ok: "truthy (fst ?create)"
    by (auto simp: transferPlaylist_def Let_def case_prod_beta split: if_splits)
  from fetch run tracks ok have res: "pid = the (fst ?create)" "c = fst ?loop"
    "s' = report (pl_name p) (the (fst ?create)) (fst ?loop) (snd ?loop)"
    by (auto simp: transferPlaylist_def Let_def case_prod_beta)
  have "outcomes (trace ?s4) = outcomes (trace s)"
    using getPlaylistTracksSpotify_silent(2)[OF fetch]
    by (simp add: createYouTubePlaylist_trace)
  moreover have "reported_counts (trace ?s4) = reported_counts (trace s)"
    using getPlaylistTracksSpotify_unreported[OF fetch]
    by (simp add: youtube_calls_unreported)
  ultimately show ?thesis
    using res by (intro exI[of _ ?s4]) simp
qed

section \<open>Claims\<close>

text \<open>
  C1. Outcome accounting. The loop of \<^verbatim>\<open>transferPlaylist\<close> (entered once the destination
  playlist exists, with the three counters at zero) writes exactly one result line for each
  track whose underlying item is not null, and none for the others; each counter ends as
  the number of result lines of its kind, so
  \<open>addedCount + notFoundCount + failedCount\<close> is the number of available tracks. The same
  holds of a whole run of \<^verbatim>\<open>transferPlaylist\<close> that reaches the summary, for the tracks that
  the listing returned, and the summary prints these counters (the failed one when it is
  not zero).
\<close>

theorem transfer_outcome_accounting:
  "(case transfer_loop yt pid (length tracks) 0 tracks
          (\<lparr>addedCount = 0, notFoundCount = 0, failedCount = 0\<rparr>, s) of
     (c, s') \<Rightarrow>
       addedCount c + notFoundCount c + failedCount c
         = length (filter (\<lambda>item. track item \<noteq> None) tracks)
       \<and> (\<exists>os. outcomes (trace s') = outcomes (trace s) @ os
             \<and> length os = length (filter (\<lambda>item. track item \<noteq> None) tracks)
             \<and> addedCount c = count_list os Added
             \<and> notFoundCount c = count_list os NotFound
             \<and> failedCount c = count_list os AddFailed))
   \<and> (getPlaylistTracksSpotify sp (pl_id p)
          (emit (Console (LogProcessing (pl_name p) (pl_id p))) s0) = Some (Inr tracks, s2)
        \<and> transferPlaylist sp yt p s0 = Some (Inr (Transferred pid c) , s1)
      \<longrightarrow> addedCount c + notFoundCount c + failedCount c
            = length (filter (\<lambda>item. track item \<noteq> None) tracks)
          \<and> (\<exists>os. outcomes (trace s1) = outcomes (trace s0) @ os
                \<and> length os = length (filter (\<lambda>item. track item \<noteq> None) tracks)
                \<and> addedCount c = count_list os Added
                \<and> notFoundCount c = count_list os NotFound
                \<and> failedCount c = count_list os AddFailed)
          \<and> reported_counts (trace s1)
              = reported_counts (trace s0) @ [addedCount c, notFoundCount c]
                  @ (if failedCount c > 0 then [failedCount c] else []))"
proof (intro conjI impI)
  obtain c s' where run: "transfer_loop yt pid (length tracks) 0 tracks
          (\<lparr>addedCount = 0, notFoundCount = 0, failedCount = 0\<rparr>, s) = (c, s')"
    by (cases "transfer_loop yt pid (length tracks) 0 tracks
          (\<lparr>addedCount = 0, notFoundCount = 0, failedCount = 0\<rparr>, s)")
  from transfer_loop_outcomes[OF run] obtain os where os:
    "outcomes (trace s') = outcomes (trace s) @ os"
    "length os = length (filter (\<lambda>item. track item \<noteq> None) tracks)"
    "addedCount c = count_list os Added"
    "notFoundCount c = count_list os NotFound"
    "failedCount c = count_list os AddFailed"
    by auto
  have "addedCount c + notFoundCount c + failedCount c = length os"
    using os(3-5) count_outcomes[of os] by simp
  with os run show "case transfer_loop yt pid (length tracks) 0 tracks
          (\<lparr>addedCount = 0, notFoundCount = 0, failedCount = 0\<rparr>, s) of
     (c, s') \<Rightarrow>
       addedCount c + notFoundCount c + failedCount c
         = length (filter (\<lambda>item. track item \<noteq> None) tracks)
       \<and> (\<exists>os. outcomes (trace s') = outcomes (trace s) @ os
             \<and> length os = length (filter (\<lambda>item. track item \<noteq> None) tracks)
             \<and> addedCount c = count_list os Added
             \<and> notFoundCount c = count_list os NotFound
             \<and> failedCount c = count_list os AddFailed)"
    by auto
next
  assume h: "getPlaylistTracksSpotify sp (pl_id p)
          (emit (Console (LogProcessing (pl_name p) (pl_id p))) s0) = Some (Inr tracks, s2)
        \<and> transferPlaylist sp yt p s0 = Some (Inr (Transferred pid c) , s1)"
  from transferPlaylist_transferred[of sp p s0 tracks s2 yt pid c s1] h
  obtain s4 where s4: "outcomes (trace s4) = outcomes (trace s0)"
    "reported_counts (trace s4) = reported_counts (trace s0)"
    "c = fst (transfer_loop yt pid (length tracks) 0 tracks
                      (\<lparr>addedCount = 0, notFoundCount = 0, failedCount = 0\<rparr>, s4))"
    "s1 = report (pl_name p) pid c
                      (snd (transfer_loop yt pid (length tracks) 0 tracks
                         (\<lparr>addedCount = 0, notFoundCount = 0, failedCount = 0\<rparr>, s4)))"
    by blast
  let ?loop = "transfer_loop yt pid (length tracks) 0 tracks
                 (\<lparr>addedCount = 0, notFoundCount = 0, failedCount = 0\<rparr>, s4)"
  have run: "?loop = (c, snd ?loop)"
    using s4(3) by (simp add: prod_eq_iff)
  from transfer_loop_outcomes[OF run] obtain os where os:
    "outcomes (trace (snd ?loop)) = outcomes (trace s4) @ os"
    "length os = length (filter (\<lambda>item. track item \<noteq> None) tracks)"
    "addedCount c = count_list os Added"
    "notFoundCount c = count_list os NotFound"
    "failedCount c = count_list os AddFailed"
    by auto
  have "addedCount c + notFoundCount c + failedCount c = length os"
    using os(3-5) count_outcomes[of os] by simp
  with os(2) show "addedCount c + notFoundCount c + failedCount c
            = length (filter (\<lambda>item. track item \<noteq> None) tracks)"
    by simp
  have "outcomes (trace s1) = outcomes (trace (snd ?loop))"
    unfolding s4(4) by (simp add: report_def Let_def)
  with os s4(1) show "\<exists>os. outcomes (trace s1) = outcomes (trace s0) @ os
                \<and> length os = length (filter (\<lambda>item. track item \<noteq> None) tracks)
                \<and> addedCount c = count_list os Added
                \<and> notFoundCount c = count_list os NotFound
                \<and> failedCount c = count_list os AddFailed"
    by (intro exI[of _ os]) simp
  have "reported_counts (trace (snd ?loop)) = reported_counts (trace s0)"
    using transfer_loop_unreported[of yt pid "length tracks" 0 tracks _ s4] s4(2) by simp
  then show "reported_counts (trace s1)
              = reported_counts (trace s0) @ [addedCount c, notFoundCount c]
                  @ (if failedCount c > 0 then [failedCount c] else [])"
    unfolding s4(4) by (simp add: report_def Let_def)
qed

theorem transfer_outcome_accounting_witness:
  "getPlaylistTracksSpotify demo_spotify (pl_id (demo_playlist ''a'' ''Mix'' []))
      (emit (Console (LogProcessing (pl_name (demo_playlist ''a'' ''Mix'' []))
                        (pl_id (demo_playlist ''a'' ''Mix'' [])))) demo_start)
    = Some (Inr [demo_track ''One'' [''X'', ''Y''], demo_track ''Two'' [''Z''],
                 demo_track ''One'' [''X'', ''Y''], demo_track ''Three'' [''W'']],
        \<lparr>world = [],
         trace = [Console (LogProcessing ''Mix'' ''a''), Console (LogFetchingTracks ''a''),
              Request (SpotifyGet (tracks_url ''a'')), Console LogNextPage,
              Request (SpotifyGet ''/page2''), Console (LogFoundValid 4)]\<rparr>)
   \<and> (\<exists>s1. transferPlaylist demo_spotify demo_youtube (demo_playlist ''a'' ''Mix'' []) demo_start
          = Some (Inr (Transferred ''PL1''
                    \<lparr>addedCount = 2, notFoundCount = 1, failedCount = 1\<rparr>), s1)
        \<and> outcomes (trace s1) = [Added, NotFound, Added, AddFailed]
        \<and> reported_counts (trace s1) = [2, 1, 1])
   \<and> (2::nat) + 1 + 1 = length (filter (\<lambda>item. track item \<noteq> None)
         [demo_track ''One'' [''X'', ''Y''], demo_track ''Two'' [''Z''],
          demo_track ''One'' [''X'', ''Y''], demo_track ''Three'' [''W'']])"
proof -
  let ?p = "demo_playlist ''a'' ''Mix'' []"
  let ?tracks = "[demo_track ''One'' [''X'', ''Y''], demo_track ''Two'' [''Z''],
                 demo_track ''One'' [''X'', ''Y''], demo_track ''Three'' [''W'']]"
  let ?s2 = "\<lparr>world = [],
         trace = [Console (LogProcessing ''Mix'' ''a''), Console (LogFetchingTracks ''a''),
              Request (SpotifyGet (tracks_url ''a'')), Console LogNextPage,
              Request (SpotifyGet ''/page2''), Console (LogFoundValid 4)]\<rparr>
         :: item_body list state"
  let ?c = "\<lparr>addedCount = 2, notFoundCount = 1, failedCount = 1\<rparr>"
  have fetch: "getPlaylistTracksSpotify demo_spotify (pl_id ?p)
      (emit (Console (LogProcessing (pl_name ?p) (pl_id ?p))) demo_start)
    = Some (Inr ?tracks, ?s2)"
    by (simp add: demo_playlist_def demo_fetch_a demo_start_def emit_def)
  from demo_run_a obtain s1 where
    run: "transferPlaylist demo_spotify demo_youtube ?p demo_start
          = Some (Inr (Transferred ''PL1'' ?c), s1)"
    and out: "outcomes (trace s1) = [Added, NotFound, Added, AddFailed]"
    and rep: "reported_counts (trace s1) = [2, 1, 1]"
    by blast
  from transfer_outcome_accounting[where yt = demo_youtube and pid = "''PL1''"
      and tracks = ?tracks and s = demo_start and sp = demo_spotify and p = ?p
      and ?s0.0 = demo_start and ?s2.0 = ?s2 and c = ?c and ?s1.0 = s1] fetch run
  have "addedCount ?c + notFoundCount ?c + failedCount ?c
          = length (filter (\<lambda>item. track item \<noteq> None) ?tracks)"
    by blast
  then have sum: "(2::nat) + 1 + 1 = length (filter (\<lambda>item. track item \<noteq> None) ?tracks)"
    by simp
  from fetch run out rep sum show ?thesis by blast
qed

text \<open>
  C2. A failed track listing. Two playlists are selected; the request for the tracks of
  the first is rejected. \<^verbatim>\<open>getPlaylistTracksSpotify\<close> logs the error and throws, nothing in
  \<^verbatim>\<open>transferPlaylist\<close> or in the loop of the command catches it, and the run ends with that
  error: the trace stops at the error line and the second playlist is never processed.
\<close>

theorem fetch_failure_aborts_run:
  "transfer_each demo_spotify demo_youtube
     [demo_playlist ''x'' ''Gone'' [], demo_playlist ''a'' ''Mix'' []] demo_start
   = Some (Inl (Error ''Could not fetch tracks for playlist x.''),
       \<lparr>world = [],
        trace = [Console (LogProcessing ''Gone'' ''x''), Console (LogFetchingTracks ''x''),
                 Request (SpotifyGet (tracks_url ''x'')),
                 Console (LogFetchError ''x'' demo_error)]\<rparr>)"
  by (simp add: transferPlaylist_def Let_def demo_playlist_def demo_fetch_x emit_def
      demo_start_def)

text \<open>
  C3. Duplicates. Let the rejection of an add request carry the reason \<open>duplicate\<close> or
  \<open>playlistItemDuplicate\<close>. Then \<^verbatim>\<open>addVideoToYouTubePlaylist\<close> returns \<open>true\<close>; adding the same
  item twice, accepted the first time and reported as a duplicate the second, returns
  \<open>true\<close> both times; and in the loop a track whose video was found and whose add is
  reported as a duplicate raises \<open>addedCount\<close> by one and leaves the other counters alone.
\<close>

theorem duplicate_counts_as_added:
  assumes dup: "err_reason e = Some ''duplicate'' \<or> err_reason e = Some ''playlistItemDuplicate''"
  shows "(fst (youtube_add yt (add_request pid v) (world s)) = Inl e
            \<longrightarrow> fst (addVideoToYouTubePlaylist yt pid v s))
       \<and> (fst (youtube_add yt (add_request pid v) (world s)) = Inr ()
          \<and> fst (youtube_add yt (add_request pid v)
                  (world (snd (addVideoToYouTubePlaylist yt pid v s)))) = Inl e
            \<longrightarrow> fst (addVideoToYouTubePlaylist yt pid v s)
              \<and> fst (addVideoToYouTubePlaylist yt pid v
                       (snd (addVideoToYouTubePlaylist yt pid v s))))
       \<and> (track item = Some t
          \<and> searchYouTubeVideo yt (track_name t) (artistNames_of t) (emit (Delay 300) s)
              = (Some vdo, s2)
          \<and> videoId (video_ident vdo) \<noteq> []
          \<and> fst (youtube_add yt (add_request pid (videoId (video_ident vdo))) (world s2)) = Inl e
            \<longrightarrow> fst (transfer_item yt pid len i item (c, s))
                  = c\<lparr>addedCount := addedCount c + 1\<rparr>)"
proof (intro conjI impI)
  assume "fst (youtube_add yt (add_request pid v) (world s)) = Inl e"
  from addVideo_duplicate[OF dup this]
  show "fst (addVideoToYouTubePlaylist yt pid v s)" by simp
next
  assume h: "fst (youtube_add yt (add_request pid v) (world s)) = Inr ()
          \<and> fst (youtube_add yt (add_request pid v)
                  (world (snd (addVideoToYouTubePlaylist yt pid v s)))) = Inl e"
  from h addVideo_ok[of yt pid v s "()"]
  show "fst (addVideoToYouTubePlaylist yt pid v s)" by simp
  from h addVideo_duplicate[OF dup, of yt pid v "snd (addVideoToYouTubePlaylist yt pid v s)"]
  show "fst (addVideoToYouTubePlaylist yt pid v (snd (addVideoToYouTubePlaylist yt pid v s)))"
    by simp
next
  assume h: "track item = Some t
          \<and> searchYouTubeVideo yt (track_name t) (artistNames_of t) (emit (Delay 300) s)
              = (Some vdo, s2)
          \<and> videoId (video_ident vdo) \<noteq> []
          \<and> fst (youtube_add yt (add_request pid (videoId (video_ident vdo))) (world s2)) = Inl e"
  then have item: "track item = Some t"
    and search: "searchYouTubeVideo yt (track_name t) (artistNames_of t) (emit (Delay 300) s)
              = (Some vdo, s2)"
    and vid: "videoId (video_ident vdo) \<noteq> []"
    and add: "fst (youtube_add yt (add_request pid (videoId (video_ident vdo))) (world s2)) = Inl e"
    by simp_all
  from addVideo_duplicate[OF dup add]
  have "fst (addVideoToYouTubePlaylist yt pid (videoId (video_ident vdo)) s2)" by simp
  with transfer_item_found[OF item search vid, of pid len i c]
  show "fst (transfer_item yt pid len i item (c, s)) = c\<lparr>addedCount := addedCount c + 1\<rparr>"
    by simp
qed

theorem duplicate_counts_as_added_witness:
  "err_reason duplicate_error = Some ''playlistItemDuplicate''
   \<and> fst (youtube_add demo_youtube (add_request ''PL1'' ''v1'') (world demo_start)) = Inr ()
   \<and> fst (youtube_add demo_youtube (add_request ''PL1'' ''v1'')
           (world (snd (addVideoToYouTubePlaylist demo_youtube ''PL1'' ''v1'' demo_start))))
       = Inl duplicate_error
   \<and> fst (addVideoToYouTubePlaylist demo_youtube ''PL1'' ''v1'' demo_start)
   \<and> fst (addVideoToYouTubePlaylist demo_youtube ''PL1'' ''v1''
           (snd (addVideoToYouTubePlaylist demo_youtube ''PL1'' ''v1'' demo_start)))
   \<and> fst (transfer_item demo_youtube ''PL1'' 2 1 (demo_track ''One'' [''X'', ''Y''])
           (\<lparr>addedCount = 1, notFoundCount = 0, failedCount = 0\<rparr>,
            snd (addVideoToYouTubePlaylist demo_youtube ''PL1'' ''v1'' demo_start)))
       = \<lparr>addedCount = 2, notFoundCount = 0, failedCount = 0\<rparr>"
proof -
  let ?s1 = "snd (addVideoToYouTubePlaylist demo_youtube ''PL1'' ''v1'' demo_start)"
  let ?t = "\<lparr>track_id = ''One'', track_name = ''One'',
             track_artists = [\<lparr>artist_name = ''X''\<rparr>, \<lparr>artist_name = ''Y''\<rparr>],
             track_album = \<lparr>album_name = ''LP''\<rparr>, track_duration_ms = 1000\<rparr>"
  have w1: "world ?s1 = [add_request ''PL1'' ''v1'']"
    by (simp add: demo_add_first demo_start_def)
  have dup: "err_reason duplicate_error = Some ''duplicate''
             \<or> err_reason duplicate_error = Some ''playlistItemDuplicate''"
    by (simp add: duplicate_error_def)
  have h1: "fst (youtube_add demo_youtube (add_request ''PL1'' ''v1'') (world demo_start)) = Inr ()"
    by (simp add: demo_youtube_def demo_start_def add_request_def)
  have h2: "fst (youtube_add demo_youtube (add_request ''PL1'' ''v1'') (world ?s1))
              = Inl duplicate_error"
    unfolding w1 by (simp add: demo_youtube_def)
  have item: "track (demo_track ''One'' [''X'', ''Y'']) = Some ?t"
    by (simp add: demo_track_def)
  have names: "artistNames_of ?t = ''X, Y''"
    by (simp add: artistNames_of_def)
  obtain s2 where search: "searchYouTubeVideo demo_youtube (track_name ?t) (artistNames_of ?t)
                     (emit (Delay 300) ?s1) = (Some (demo_video ''v1''), s2)"
    and w2: "world s2 = [add_request ''PL1'' ''v1'']"
    by (simp add: names demo_search_one w1)
  have vid: "videoId (video_ident (demo_video ''v1'')) \<noteq> []"
    by (simp add: demo_video_def)
  have h3: "fst (youtube_add demo_youtube
                  (add_request ''PL1'' (videoId (video_ident (demo_video ''v1'')))) (world s2))
              = Inl duplicate_error"
    by (simp add: w2 demo_youtube_def demo_video_def)
  note inst = duplicate_counts_as_added[OF dup, of demo_youtube "''PL1''" "''v1''" demo_start
      "demo_track ''One'' [''X'', ''Y'']" ?t "demo_video ''v1''" s2 2 1
      "\<lparr>addedCount = 1, notFoundCount = 0, failedCount = 0\<rparr>"]
  have e: "err_reason duplicate_error = Some ''playlistItemDuplicate''"
    by (simp add: duplicate_error_def)
  from inst h1 h2 have both: "fst (addVideoToYouTubePlaylist demo_youtube ''PL1'' ''v1'' demo_start)"
    "fst (addVideoToYouTubePlaylist demo_youtube ''PL1'' ''v1'' ?s1)"
    by blast+
  note inst2 = duplicate_counts_as_added[OF dup, of demo_youtube "''PL1''" "''v1''" ?s1
      "demo_track ''One'' [''X'', ''Y'']" ?t "demo_video ''v1''" s2 2 1
      "\<lparr>addedCount = 1, notFoundCount = 0, failedCount = 0\<rparr>"]
  from inst2 item search vid h3
  have "fst (transfer_item demo_youtube ''PL1'' 2 1 (demo_track ''One'' [''X'', ''Y''])
           (\<lparr>addedCount = 1, notFoundCount = 0, failedCount = 0\<rparr>, ?s1))
       = \<lparr>addedCount = 1, notFoundCount = 0, failedCount = 0\<rparr>
           \<lparr>addedCount := addedCount \<lparr>addedCount = 1, notFoundCount = 0, failedCount = 0\<rparr> + 1\<rparr>"
    by blast
  then have cnt: "fst (transfer_item demo_youtube ''PL1'' 2 1 (demo_track ''One'' [''X'', ''Y''])
           (\<lparr>addedCount = 1, notFoundCount = 0, failedCount = 0\<rparr>, ?s1))
       = \<lparr>addedCount = 2, notFoundCount = 0, failedCount = 0\<rparr>"
    by simp
  show ?thesis
    using e h1 h2 both cnt by simp
qed

text \<open>
  C4. Filtering. When the server serves the pages of a listing one after the other,
  \<^verbatim>\<open>getPlaylistTracksSpotify\<close> returns the entries of all pages whose \<^verbatim>\<open>track\<close> is not null,
  in the order of the listing, and logs their number as the number of tracks found. An
  entry without a track that reaches the transfer loop is passed over: no counter and
  no state changes, so it is never counted as not found.
\<close>

theorem tracks_listing_filters_null:
  "(serves client (tracks_url playlistId) pages (world s) \<longrightarrow>
     (\<exists>s'. getPlaylistTracksSpotify client playlistId s
            = Some (Inr (filter (\<lambda>item. track item \<noteq> None) (concat (map page_items pages))),
                    emit (Console (LogFoundValid (length
                       (filter (\<lambda>item. track item \<noteq> None) (concat (map page_items pages)))))) s')))
   \<and> (track item = None \<longrightarrow> transfer_item yt pid len i item cs = cs)"
  using getPlaylistTracksSpotify_serves[of client playlistId pages s]
        transfer_item_null[of item yt pid len i cs]
  by blast

theorem tracks_listing_filters_null_witness:
  "serves demo_spotify (tracks_url ''a'') [demo_page1, demo_page2] (world demo_start)
   \<and> (\<exists>s'. getPlaylistTracksSpotify demo_spotify ''a'' demo_start
            = Some (Inr [demo_track ''One'' [''X'', ''Y''], demo_track ''Two'' [''Z''],
                         demo_track ''One'' [''X'', ''Y''], demo_track ''Three'' [''W'']],
                    emit (Console (LogFoundValid 4)) s'))
   \<and> track null_track = None
   \<and> transfer_item demo_youtube ''PL1'' 4 1 null_track
        (\<lparr>addedCount = 0, notFoundCount = 0, failedCount = 0\<rparr>, demo_start)
      = (\<lparr>addedCount = 0, notFoundCount = 0, failedCount = 0\<rparr>, demo_start)"
proof -
  have h: "serves demo_spotify (tracks_url ''a'') [demo_page1, demo_page2] (world demo_start)"
    using demo_serves by (simp add: demo_start_def)
  have n: "track null_track = None" by (simp add: null_track_def)
  have f: "filter (\<lambda>item. track item \<noteq> None) (concat (map page_items [demo_page1, demo_page2]))
           = [demo_track ''One'' [''X'', ''Y''], demo_track ''Two'' [''Z''],
              demo_track ''One'' [''X'', ''Y''], demo_track ''Three'' [''W'']]"
    by (simp add: demo_page1_def demo_page2_def demo_track_def null_track_def)
  have len: "length [demo_track ''One'' [''X'', ''Y''], demo_track ''Two'' [''Z''],
              demo_track ''One'' [''X'', ''Y''], demo_track ''Three'' [''W'']] = 4"
    by simp
  note run = tracks_listing_filters_null[of demo_spotify "''a''" "[demo_page1, demo_page2]"
      demo_start null_track demo_youtube "''PL1''" 4 1
      "(\<lparr>addedCount = 0, notFoundCount = 0, failedCount = 0\<rparr>, demo_start)"]
  from run h have a: "\<exists>s'. getPlaylistTracksSpotify demo_spotify ''a'' demo_start
            = Some (Inr [demo_track ''One'' [''X'', ''Y''], demo_track ''Two'' [''Z''],
                         demo_track ''One'' [''X'', ''Y''], demo_track ''Three'' [''W'']],
                    emit (Console (LogFoundValid 4)) s')"
    unfolding f len by blast
  from run n have b: "transfer_item demo_youtube ''PL1'' 4 1 null_track
        (\<lparr>addedCount = 0, notFoundCount = 0, failedCount = 0\<rparr>, demo_start)
      = (\<lparr>addedCount = 0, notFoundCount = 0, failedCount = 0\<rparr>, demo_start)"
    by blast
  from h a n b show ?thesis by blast
qed

text \<open>
  C5. Search. \<^verbatim>\<open>searchYouTubeVideo\<close> sends exactly one search request, with \<open>maxResults = 5\<close>.
  When the reply lists at least one item it returns the first item as it came; when the
  reply lists none (or has no item list) and when the request is rejected it returns
  \<open>null\<close>: the error is caught there and never reaches the caller. Whatever made the result
  \<open>null\<close>, the loop counts the track as not found.
\<close>

theorem search_first_result_or_null:
  "sp_maxResults (search_request trackName artistName) = 5
   \<and> search_requests (trace (snd (searchYouTubeVideo yt trackName artistName s)))
       = search_requests (trace s) @ [search_request trackName artistName]
   \<and> (fst (youtube_search yt (search_request trackName artistName) (world s)) = Inr d
        \<and> search_items d = Some (v # vs)
        \<longrightarrow> fst (searchYouTubeVideo yt trackName artistName s) = Some v)
   \<and> (fst (youtube_search yt (search_request trackName artistName) (world s)) = Inr d
        \<and> (search_items d = Some [] \<or> search_items d = None)
        \<longrightarrow> fst (searchYouTubeVideo yt trackName artistName s) = None)
   \<and> (fst (youtube_search yt (search_request trackName artistName) (world s)) = Inl e
        \<longrightarrow> fst (searchYouTubeVideo yt trackName artistName s) = None)
   \<and> (fst (searchYouTubeVideo yt (track_name t) (artistNames_of t) (emit (Delay 300) s)) = None
        \<longrightarrow> fst (transfer_item yt pid len i \<lparr>track = Some t\<rparr> (c, s))
              = c\<lparr>notFoundCount := notFoundCount c + 1\<rparr>)"
proof (intro conjI impI)
  show "sp_maxResults (search_request trackName artistName) = 5"
    by (simp add: search_request_def)
next
  show "search_requests (trace (snd (searchYouTubeVideo yt trackName artistName s)))
       = search_requests (trace s) @ [search_request trackName artistName]"
    by (rule searchYouTubeVideo_trace(4))
next
  assume "fst (youtube_search yt (search_request trackName artistName) (world s)) = Inr d
        \<and> search_items d = Some (v # vs)"
  then show "fst (searchYouTubeVideo yt trackName artistName s) = Some v"
    by (simp add: searchYouTubeVideo_def Let_def call_eq)
next
  assume "fst (youtube_search yt (search_request trackName artistName) (world s)) = Inr d
        \<and> (search_items d = Some [] \<or> search_items d = None)"
  then show "fst (searchYouTubeVideo yt trackName artistName s) = None"
    by (auto simp: searchYouTubeVideo_def Let_def call_eq)
next
  assume "fst (youtube_search yt (search_request trackName artistName) (world s)) = Inl e"
  then show "fst (searchYouTubeVideo yt trackName artistName s) = None"
    by (simp add: searchYouTubeVideo_def Let_def call_eq)
next
  assume none: "fst (searchYouTubeVideo yt (track_name t) (artistNames_of t)
                       (emit (Delay 300) s)) = None"
  have item: "track \<lparr>track = Some t\<rparr> = Some t" by simp
  from none have "\<not> found_video (fst (searchYouTubeVideo yt (track_name t) (artistNames_of t)
                       (emit (Delay 300) s)))"
    by (simp add: found_video_def)
  from transfer_item_not_found[OF item this, of pid len i c]
  show "fst (transfer_item yt pid len i \<lparr>track = Some t\<rparr> (c, s))
              = c\<lparr>notFoundCount := notFoundCount c + 1\<rparr>"
    by simp
qed

theorem search_first_result_or_null_witness:
  "fst (youtube_search demo_youtube (search_request ''One'' ''X, Y'') (world demo_start))
     = Inr \<lparr>search_items = Some [demo_video ''v1'', demo_video ''v9'']\<rparr>
   \<and> fst (searchYouTubeVideo demo_youtube ''One'' ''X, Y'' demo_start) = Some (demo_video ''v1'')
   \<and> fst (youtube_search demo_youtube (search_request ''Two'' ''Z'') (world demo_start))
     = Inr \<lparr>search_items = Some []\<rparr>
   \<and> fst (searchYouTubeVideo demo_youtube ''Two'' ''Z'' demo_start) = None
   \<and> fst (youtube_search demo_youtube (search_request ''Four'' ''V'') (world demo_start))
     = Inl demo_error
   \<and> fst (searchYouTubeVideo demo_youtube ''Four'' ''V'' demo_start) = None
   \<and> fst (transfer_item demo_youtube ''PL1'' 1 0 (demo_track ''Four'' [''V''])
           (\<lparr>addedCount = 0, notFoundCount = 0, failedCount = 0\<rparr>, demo_start))
       = \<lparr>addedCount = 0, notFoundCount = 1, failedCount = 0\<rparr>
   \<and> fst (transfer_item demo_youtube ''PL1'' 1 0 (demo_track ''Two'' [''Z''])
           (\<lparr>addedCount = 0, notFoundCount = 0, failedCount = 0\<rparr>, demo_start))
       = \<lparr>addedCount = 0, notFoundCount = 1, failedCount = 0\<rparr>"
proof -
  let ?c = "\<lparr>addedCount = 0, notFoundCount = 0, failedCount = 0\<rparr>"
  let ?four = "\<lparr>track_id = ''Four'', track_name = ''Four'',
             track_artists = [\<lparr>artist_name = ''V''\<rparr>],
             track_album = \<lparr>album_name = ''LP''\<rparr>, track_duration_ms = 1000\<rparr>"
  let ?two = "\<lparr>track_id = ''Two'', track_name = ''Two'',
             track_artists = [\<lparr>artist_name = ''Z''\<rparr>],
             track_album = \<lparr>album_name = ''LP''\<rparr>, track_duration_ms = 1000\<rparr>"
  have h1: "fst (youtube_search demo_youtube (search_request ''One'' ''X, Y'') (world demo_start))
     = Inr \<lparr>search_items = Some [demo_video ''v1'', demo_video ''v9'']\<rparr>"
    by (simp add: demo_youtube_def search_request_def)
  have h2: "fst (youtube_search demo_youtube (search_request ''Two'' ''Z'') (world demo_start))
     = Inr \<lparr>search_items = Some []\<rparr>"
    by (simp add: demo_youtube_def search_request_def)
  have h3: "fst (youtube_search demo_youtube (search_request ''Four'' ''V'') (world demo_start))
     = Inl demo_error"
    by (simp add: demo_youtube_def search_request_def)
  have h4: "fst (searchYouTubeVideo demo_youtube (track_name ?four) (artistNames_of ?four)
                   (emit (Delay 300) demo_start)) = None"
    by (simp add: artistNames_of_def demo_search_error)
  have h5: "fst (searchYouTubeVideo demo_youtube (track_name ?two) (artistNames_of ?two)
                   (emit (Delay 300) demo_start)) = None"
    by (simp add: artistNames_of_def demo_search_two)
  from search_first_result_or_null[of "''One''" "''X, Y''" demo_youtube demo_start
      "\<lparr>search_items = Some [demo_video ''v1'', demo_video ''v9'']\<rparr>"
      "demo_video ''v1''" "[demo_video ''v9'']"] h1
  have c1: "fst (searchYouTubeVideo demo_youtube ''One'' ''X, Y'' demo_start)
              = Some (demo_video ''v1'')"
    by simp
  from search_first_result_or_null[of "''Two''" "''Z''" demo_youtube demo_start
      "\<lparr>search_items = Some []\<rparr>" _ _ _ ?two "''PL1''" 1 0 ?c] h2 h5
  have c2: "fst (searchYouTubeVideo demo_youtube ''Two'' ''Z'' demo_start) = None"
    and c5: "fst (transfer_item demo_youtube ''PL1'' 1 0 \<lparr>track = Some ?two\<rparr> (?c, demo_start))
              = ?c\<lparr>notFoundCount := notFoundCount ?c + 1\<rparr>"
    by simp_all
  from search_first_result_or_null[of "''Four''" "''V''" demo_youtube demo_start
      _ _ _ demo_error ?four "''PL1''" 1 0 ?c] h3 h4
  have c3: "fst (searchYouTubeVideo demo_youtube ''Four'' ''V'' demo_start) = None"
    and c4: "fst (transfer_item demo_youtube ''PL1'' 1 0 \<lparr>track = Some ?four\<rparr> (?c, demo_start))
              = ?c\<lparr>notFoundCount := notFoundCount ?c + 1\<rparr>"
    by simp_all
  from h1 c1 h2 c2 h3 c3 c4 c5 show ?thesis
    by (simp add: demo_track_def)
qed

text \<open>
  C6. Playlist creation failure. A rejected create request makes \<^verbatim>\<open>createYouTubePlaylist\<close>
  return \<open>null\<close> (the function has no other way out). When it returns \<open>null\<close> for a playlist
  with tracks, \<^verbatim>\<open>transferPlaylist\<close> logs the failure as its last line and returns normally:
  the create request is the only request sent to YouTube, no track gets a result line, and
  the loop of the command goes on with the remaining playlists.
\<close>

theorem create_failure_skips_playlist:
  "(fst (youtube_create yt (create_request title description) (world s0)) = Inl e
      \<longrightarrow> fst (createYouTubePlaylist yt title description s0) = None)
   \<and> (getPlaylistTracksSpotify sp (pl_id p)
          (emit (Console (LogProcessing (pl_name p) (pl_id p))) s) = Some (Inr tracks, s2)
        \<and> tracks \<noteq> []
        \<and> fst (createYouTubePlaylist yt (pl_name p)
                 (if pl_description p \<noteq> [] then pl_description p
                  else ''Migrated from Spotify: '' @ pl_name p) s2) = None
      \<longrightarrow> (\<exists>s'. transferPlaylist sp yt p s = Some (Inr CreateFailed, s')
             \<and> last (trace s') = Console (LogCreateFailedSkipping (pl_name p))
             \<and> youtube_requests (trace s')
                 = youtube_requests (trace s) @
                   [Request (YouTubeCreatePlaylist (create_request (pl_name p)
                      (if pl_description p \<noteq> [] then pl_description p
                       else ''Migrated from Spotify: '' @ pl_name p)))]
             \<and> outcomes (trace s') = outcomes (trace s)
             \<and> transfer_each sp yt (p # rest) s = transfer_each sp yt rest s'))"
proof (intro conjI impI)
  assume "fst (youtube_create yt (create_request title description) (world s0)) = Inl e"
  then show "fst (createYouTubePlaylist yt title description s0) = None"
    by (simp add: createYouTubePlaylist_def Let_def call_eq)
next
  let ?d = "if pl_description p \<noteq> [] then pl_description p
            else ''Migrated from Spotify: '' @ pl_name p"
  let ?create = "createYouTubePlaylist yt (pl_name p) ?d s2"
  let ?s' = "emit (Console (LogCreateFailedSkipping (pl_name p))) (snd ?create)"
  assume h: "getPlaylistTracksSpotify sp (pl_id p)
          (emit (Console (LogProcessing (pl_name p) (pl_id p))) s) = Some (Inr tracks, s2)
        \<and> tracks \<noteq> [] \<and> fst ?create = None"
  then have fetch: "getPlaylistTracksSpotify sp (pl_id p)
          (emit (Console (LogProcessing (pl_name p) (pl_id p))) s) = Some (Inr tracks, s2)"
    and tracks: "tracks \<noteq> []" and null: "fst ?create = None"
    by simp_all
  have run: "transferPlaylist sp yt p s = Some (Inr CreateFailed, ?s')"
    using fetch tracks null by (simp add: transferPlaylist_def Let_def case_prod_beta)
  have s2: "youtube_requests (trace s2) = youtube_requests (trace s)"
    "outcomes (trace s2) = outcomes (trace s)"
    using getPlaylistTracksSpotify_silent(1,2)[OF fetch] by simp_all
  have "last (trace ?s') = Console (LogCreateFailedSkipping (pl_name p))"
    by simp
  moreover have "youtube_requests (trace ?s')
      = youtube_requests (trace s) @
          [Request (YouTubeCreatePlaylist (create_request (pl_name p) ?d))]"
    by (simp add: createYouTubePlaylist_trace s2)
  moreover have "outcomes (trace ?s') = outcomes (trace s)"
    by (simp add: createYouTubePlaylist_trace s2)
  moreover have "transfer_each sp yt (p # rest) s = transfer_each sp yt rest ?s'"
    using run by simp
  ultimately show "\<exists>s'. transferPlaylist sp yt p s = Some (Inr CreateFailed, s')
             \<and> last (trace s') = Console (LogCreateFailedSkipping (pl_name p))
             \<and> youtube_requests (trace s')
                 = youtube_requests (trace s) @
                   [Request (YouTubeCreatePlaylist (create_request (pl_name p) ?d))]
             \<and> outcomes (trace s') = outcomes (trace s)
             \<and> transfer_each sp yt (p # rest) s = transfer_each sp yt rest s'"
    using run by (intro exI[of _ ?s']) simp
qed

theorem create_failure_skips_playlist_witness:
  "fst (youtube_create demo_youtube (create_request ''Broken'' ''d'') (world demo_start))
     = Inl demo_error
   \<and> fst (createYouTubePlaylist demo_youtube ''Broken'' ''d'' demo_start) = None
   \<and> (\<exists>s'. transferPlaylist demo_spotify demo_youtube (demo_playlist ''a'' ''Broken'' ''d'')
               demo_start = Some (Inr CreateFailed, s')
          \<and> youtube_requests (trace s')
              = [Request (YouTubeCreatePlaylist (create_request ''Broken'' ''d''))]
          \<and> transfer_each demo_spotify demo_youtube
               [demo_playlist ''a'' ''Broken'' ''d'', demo_playlist ''e'' ''Empty'' []] demo_start
              = Some (Inr (),
                  \<lparr>world = world s',
                   trace = trace s' @ [Console (LogProcessing ''Empty'' ''e''),
                     Console (LogFetchingTracks ''e''),
                     Request (SpotifyGet (tracks_url ''e'')), Console (LogFoundValid 0),
                     Console (LogEmptySkipping ''Empty'')]\<rparr>))"
proof -
  let ?p = "demo_playlist ''a'' ''Broken'' ''d''"
  let ?s2 = "\<lparr>world = [],
            trace = [Console (LogProcessing ''Broken'' ''a''), Console (LogFetchingTracks ''a''),
              Request (SpotifyGet (tracks_url ''a'')), Console LogNextPage,
              Request (SpotifyGet ''/page2''), Console (LogFoundValid 4)]\<rparr>
            :: item_body list state"
  let ?tracks = "[demo_track ''One'' [''X'', ''Y''], demo_track ''Two'' [''Z''],
                demo_track ''One'' [''X'', ''Y''], demo_track ''Three'' [''W'']]"
  have h1: "fst (youtube_create demo_youtube (create_request ''Broken'' ''d'')
                  (world demo_start)) = Inl demo_error"
    by (simp add: demo_youtube_def create_request_def)
  have h2: "getPlaylistTracksSpotify demo_spotify (pl_id ?p)
          (emit (Console (LogProcessing (pl_name ?p) (pl_id ?p))) demo_start)
          = Some (Inr ?tracks, ?s2)
        \<and> ?tracks \<noteq> []
        \<and> fst (createYouTubePlaylist demo_youtube (pl_name ?p)
                 (if pl_description ?p \<noteq> [] then pl_description ?p
                  else ''Migrated from Spotify: '' @ pl_name ?p) ?s2) = None"
    by (simp add: demo_playlist_def demo_fetch_a demo_start_def emit_def demo_create_broken)
  note inst = create_failure_skips_playlist[of demo_youtube "''Broken''" "''d''" demo_start
      demo_error demo_spotify ?p demo_start ?tracks ?s2 "[demo_playlist ''e'' ''Empty'' []]"]
  from inst h1 have c1: "fst (createYouTubePlaylist demo_youtube ''Broken'' ''d'' demo_start) = None"
    by blast
  from inst h2 obtain s' where
    s': "transferPlaylist demo_spotify demo_youtube ?p demo_start = Some (Inr CreateFailed, s')"
      "youtube_requests (trace s')
         = youtube_requests (trace demo_start) @
           [Request (YouTubeCreatePlaylist (create_request (pl_name ?p)
              (if pl_description ?p \<noteq> [] then pl_description ?p
               else ''Migrated from Spotify: '' @ pl_name ?p)))]"
      "transfer_each demo_spotify demo_youtube (?p # [demo_playlist ''e'' ''Empty'' []]) demo_start
         = transfer_each demo_spotify demo_youtube [demo_playlist ''e'' ''Empty'' []] s'"
    by blast
  from s'(2) have r: "youtube_requests (trace s')
              = [Request (YouTubeCreatePlaylist (create_request ''Broken'' ''d''))]"
    by (simp add: demo_playlist_def demo_start_def)
  from s'(3) have t: "transfer_each demo_spotify demo_youtube
               [?p, demo_playlist ''e'' ''Empty'' []] demo_start
              = Some (Inr (),
                  \<lparr>world = world s',
                   trace = trace s' @ [Console (LogProcessing ''Empty'' ''e''),
                     Console (LogFetchingTracks ''e''),
                     Request (SpotifyGet (tracks_url ''e'')), Console (LogFoundValid 0),
                     Console (LogEmptySkipping ''Empty'')]\<rparr>)"
    by (simp add: demo_run_e del: transfer_each.simps(2)) (simp add: demo_run_e)
  from h1 c1 s'(1) r t show ?thesis by blast
qed

text \<open>
  C7. Empty playlist. When the track listing comes back empty, \<^verbatim>\<open>transferPlaylist\<close> returns
  through the ``Skipping'' branch having written that one line only: no request goes to
  YouTube (no playlist is created, nothing is searched or added), no track gets a result
  line, and no summary is printed: the function returns before the counters exist, so no
  count is reported at all.
\<close>

theorem empty_playlist_skipped:
  assumes "getPlaylistTracksSpotify sp (pl_id p)
             (emit (Console (LogProcessing (pl_name p) (pl_id p))) s) = Some (Inr [], s2)"
  shows "transferPlaylist sp yt p s
           = Some (Inr Skipped, emit (Console (LogEmptySkipping (pl_name p))) s2)
         \<and> youtube_requests (trace (emit (Console (LogEmptySkipping (pl_name p))) s2))
             = youtube_requests (trace s)
         \<and> created_playlists (trace (emit (Console (LogEmptySkipping (pl_name p))) s2))
             = created_playlists (trace s)
         \<and> outcomes (trace (emit (Console (LogEmptySkipping (pl_name p))) s2))
             = outcomes (trace s)
         \<and> reported_counts (trace (emit (Console (LogEmptySkipping (pl_name p))) s2))
             = reported_counts (trace s)"
proof -
  have "transferPlaylist sp yt p s
          = Some (Inr Skipped, emit (Console (LogEmptySkipping (pl_name p))) s2)"
    using assms by (simp add: transferPlaylist_def Let_def)
  moreover have "youtube_requests (trace s2) = youtube_requests (trace s)"
    using getPlaylistTracksSpotify_silent(1)[OF assms] by simp
  moreover have "created_playlists (trace s2) = created_playlists (trace s)"
    using getPlaylistTracksSpotify_silent(3)[OF assms] by simp
  moreover have "outcomes (trace s2) = outcomes (trace s)"
    using getPlaylistTracksSpotify_silent(2)[OF assms] by simp
  moreover have "reported_counts (trace s2) = reported_counts (trace s)"
    using getPlaylistTracksSpotify_unreported[OF assms] by simp
  ultimately show ?thesis by simp
qed

theorem empty_playlist_skipped_witness:
  "getPlaylistTracksSpotify demo_spotify (pl_id (demo_playlist ''e'' ''Empty'' ''x''))
      (emit (Console (LogProcessing (pl_name (demo_playlist ''e'' ''Empty'' ''x''))
                        (pl_id (demo_playlist ''e'' ''Empty'' ''x'')))) demo_start)
    = Some (Inr [],
        \<lparr>world = [],
         trace = [Console (LogProcessing ''Empty'' ''e''), Console (LogFetchingTracks ''e''),
                  Request (SpotifyGet (tracks_url ''e'')), Console (LogFoundValid 0)]\<rparr>)
   \<and> transferPlaylist demo_spotify demo_youtube (demo_playlist ''e'' ''Empty'' ''x'') demo_start
    = Some (Inr Skipped,
        \<lparr>world = [],
         trace = [Console (LogProcessing ''Empty'' ''e''), Console (LogFetchingTracks ''e''),
                  Request (SpotifyGet (tracks_url ''e'')), Console (LogFoundValid 0),
                  Console (LogEmptySkipping ''Empty'')]\<rparr>)"
proof -
  let ?p = "demo_playlist ''e'' ''Empty'' ''x''"
  let ?s2 = "\<lparr>world = [],
         trace = [Console (LogProcessing ''Empty'' ''e''), Console (LogFetchingTracks ''e''),
                  Request (SpotifyGet (tracks_url ''e'')), Console (LogFoundValid 0)]\<rparr>
         :: item_body list state"
  have h: "getPlaylistTracksSpotify demo_spotify (pl_id ?p)
      (emit (Console (LogProcessing (pl_name ?p) (pl_id ?p))) demo_start) = Some (Inr [], ?s2)"
    by (simp add: demo_playlist_def demo_fetch_e demo_start_def emit_def)
  from empty_playlist_skipped[OF h, of demo_youtube] h
  show ?thesis by (simp add: demo_playlist_def emit_def)
qed

text \<open>
  C7, counterexample to a report with all counts zero. On the playlist \<open>e\<close>, whose
  only entry is unavailable, the run ends at the ``Skipping'' line and prints no summary:
  the list of reported counts is empty, not a list of zeros.
\<close>

theorem empty_playlist_no_report_counterexample:
  "transferPlaylist demo_spotify demo_youtube (demo_playlist ''e'' ''Empty'' ''x'') demo_start
    = Some (Inr Skipped,
        \<lparr>world = [],
         trace = [Console (LogProcessing ''Empty'' ''e''), Console (LogFetchingTracks ''e''),
                  Request (SpotifyGet (tracks_url ''e'')), Console (LogFoundValid 0),
                  Console (LogEmptySkipping ''Empty'')]\<rparr>)
   \<and> reported_counts [Console (LogProcessing ''Empty'' ''e''), Console (LogFetchingTracks ''e''),
                  Request (SpotifyGet (tracks_url ''e'')), Console (LogFoundValid 0),
                  Console (LogEmptySkipping ''Empty'')] = []
   \<and> reported_counts [Console (LogProcessing ''Empty'' ''e''), Console (LogFetchingTracks ''e''),
                  Request (SpotifyGet (tracks_url ''e'')), Console (LogFoundValid 0),
                  Console (LogEmptySkipping ''Empty'')] \<noteq> [0, 0]"
  by (simp add: demo_run_e demo_start_def)



text \<open>
  C9. The search query. For a track with a title and performers, the loop sends one search
  request whose query is the title, then one space, then the performer names in their
  order, each but the last followed by a comma and a space (\<^verbatim>\<open>join(", ")\<close>); with no performer
  the query ends at the space. The request is the same in every state of the services and
  at every position of the loop: it is a function of the track alone.
\<close>

theorem search_query_built:
  "search_requests (trace (snd (transfer_item yt pid len i \<lparr>track = Some t\<rparr> (c, s))))
     = search_requests (trace s) @
       [\<lparr>sp_part = ''snippet'',
         sp_q = track_name t @ '' '' @
                (if track_artists t = [] then []
                 else concat (map (\<lambda>a. artist_name a @ '', '') (butlast (track_artists t)))
                        @ artist_name (last (track_artists t))),
         sp_type = ''video'',
         sp_videoCategoryId = ''10'',
         sp_maxResults = 5\<rparr>]"
proof -
  have "track \<lparr>track = Some t\<rparr> = Some t" by simp
  from transfer_item_available(3)[OF this, of yt pid len i c s
      "fst (transfer_item yt pid len i \<lparr>track = Some t\<rparr> (c, s))"
      "snd (transfer_item yt pid len i \<lparr>track = Some t\<rparr> (c, s))"]
  have "search_requests (trace (snd (transfer_item yt pid len i \<lparr>track = Some t\<rparr> (c, s))))
          = search_requests (trace s) @ [search_request (track_name t) (artistNames_of t)]"
    by simp
  also have "search_request (track_name t) (artistNames_of t)
          = \<lparr>sp_part = ''snippet'',
             sp_q = track_name t @ '' '' @
                (if track_artists t = [] then []
                 else concat (map (\<lambda>a. artist_name a @ '', '') (butlast (track_artists t)))
                        @ artist_name (last (track_artists t))),
             sp_type = ''video'',
             sp_videoCategoryId = ''10'',
             sp_maxResults = 5\<rparr>"
    unfolding search_request_def by (subst artistNames_of_butlast) simp
  finally show ?thesis .
qed

theorem search_query_built_witness:
  "search_requests (trace (snd (transfer_item demo_youtube ''PL1'' 1 0
      \<lparr>track = Some \<lparr>track_id = ''t'', track_name = ''Song'',
          track_artists = [\<lparr>artist_name = ''A''\<rparr>, \<lparr>artist_name = ''B''\<rparr>, \<lparr>artist_name = ''C''\<rparr>],
          track_album = \<lparr>album_name = ''LP''\<rparr>, track_duration_ms = 1000\<rparr>\<rparr>
      (\<lparr>addedCount = 0, notFoundCount = 0, failedCount = 0\<rparr>, demo_start))))
     = [\<lparr>sp_part = ''snippet'', sp_q = ''Song A, B, C'', sp_type = ''video'',
         sp_videoCategoryId = ''10'', sp_maxResults = 5\<rparr>]
   \<and> search_requests (trace (snd (transfer_item demo_youtube ''PL1'' 1 0
      \<lparr>track = Some \<lparr>track_id = ''u'', track_name = ''Solo'',
          track_artists = [],
          track_album = \<lparr>album_name = ''LP''\<rparr>, track_duration_ms = 1000\<rparr>\<rparr>
      (\<lparr>addedCount = 0, notFoundCount = 0, failedCount = 0\<rparr>, demo_start))))
     = [\<lparr>sp_part = ''snippet'', sp_q = ''Solo '', sp_type = ''video'',
         sp_videoCategoryId = ''10'', sp_maxResults = 5\<rparr>]"
proof -
  let ?t = "\<lparr>track_id = ''t'', track_name = ''Song'',
          track_artists = [\<lparr>artist_name = ''A''\<rparr>, \<lparr>artist_name = ''B''\<rparr>, \<lparr>artist_name = ''C''\<rparr>],
          track_album = \<lparr>album_name = ''LP''\<rparr>, track_duration_ms = 1000\<rparr>"
  let ?u = "\<lparr>track_id = ''u'', track_name = ''Solo'',
          track_artists = [],
          track_album = \<lparr>album_name = ''LP''\<rparr>, track_duration_ms = 1000\<rparr>"
  let ?c = "\<lparr>addedCount = 0, notFoundCount = 0, failedCount = 0\<rparr>"
  have e: "search_requests (trace demo_start) = []"
    by (simp add: demo_start_def)
  from search_query_built[of demo_youtube "''PL1''" 1 0 ?t ?c demo_start]
  have a: "search_requests (trace (snd (transfer_item demo_youtube ''PL1'' 1 0
      \<lparr>track = Some ?t\<rparr> (?c, demo_start))))
     = [\<lparr>sp_part = ''snippet'', sp_q = ''Song A, B, C'', sp_type = ''video'',
         sp_videoCategoryId = ''10'', sp_maxResults = 5\<rparr>]"
    unfolding e by simp
  from search_query_built[of demo_youtube "''PL1''" 1 0 ?u ?c demo_start]
  have b: "search_requests (trace (snd (transfer_item demo_youtube ''PL1'' 1 0
      \<lparr>track = Some ?u\<rparr> (?c, demo_start))))
     = [\<lparr>sp_part = ''snippet'', sp_q = ''Solo '', sp_type = ''video'',
         sp_videoCategoryId = ''10'', sp_maxResults = 5\<rparr>]"
    unfolding e by simp
  from a b show ?thesis by blast
qed

text \<open>
  C9, counterexample to a join by a bare comma. For the track \<open>One\<close> by \<open>X\<close>
  and \<open>Y\<close> the query sent is \<open>One X, Y\<close>, with a space after the comma, which is not
  \<open>One X,Y\<close>.
\<close>

theorem search_query_comma_only_counterexample:
  "search_requests (trace (snd (transfer_item demo_youtube ''PL1'' 1 0
      (demo_track ''One'' [''X'', ''Y''])
      (\<lparr>addedCount = 0, notFoundCount = 0, failedCount = 0\<rparr>, demo_start))))
     = [\<lparr>sp_part = ''snippet'', sp_q = ''One X, Y'', sp_type = ''video'',
         sp_videoCategoryId = ''10'', sp_maxResults = 5\<rparr>]
   \<and> ''One X, Y'' \<noteq> ''One'' @ '' '' @ ''X'' @ '','' @ ''Y''"
proof -
  have w: "world demo_start = []" by (simp add: demo_start_def)
  have "search_requests (trace (snd (transfer_item demo_youtube ''PL1'' 1 0
      (demo_track ''One'' [''X'', ''Y''])
      (\<lparr>addedCount = 0, notFoundCount = 0, failedCount = 0\<rparr>, demo_start))))
     = [search_request ''One'' ''X, Y'']"
    unfolding demo_item1[OF w] by (simp add: demo_start_def)
  then show ?thesis by (simp add: search_request_def)
qed

text \<open>
  C10. Descriptions. \<^verbatim>\<open>createYouTubePlaylist\<close> sends one create request whose description is
  the one it was handed, or, when handed the empty string, its own fallback text
  ``Playlist migrated from Spotify - title''; either way it is not empty. A run of
  \<^verbatim>\<open>transferPlaylist\<close> asks for at most one playlist, with a non-empty description, which
  is the generated text ``Migrated from Spotify: name'' when the source has none.
\<close>

theorem created_description_never_empty:
  "body_description (create_request title description) \<noteq> []
   \<and> body_description (create_request title []) = ''Playlist migrated from Spotify - '' @ title
   \<and> created_playlists (trace (snd (createYouTubePlaylist yt title description s0)))
       = created_playlists (trace s0) @
         [\<lparr>body_title = title,
           body_description =
             (if description = [] then ''Playlist migrated from Spotify - '' @ title
              else description),
           body_privacyStatus = ''private''\<rparr>]
   \<and> (if description = [] then ''Playlist migrated from Spotify - '' @ title else description)
       \<noteq> []
   \<and> (transferPlaylist sp yt p s = Some (r, s') \<longrightarrow>
        (\<exists>bs. created_playlists (trace s') = created_playlists (trace s) @ bs
           \<and> (\<forall>b \<in> set bs. body_description b \<noteq> [])
           \<and> (\<forall>b \<in> set bs. pl_description p = [] \<longrightarrow>
                  body_description b = ''Migrated from Spotify: '' @ pl_name p)))"
proof (intro conjI impI)
  show "body_description (create_request title description) \<noteq> []"
    by (rule create_request_description)
next
  show "body_description (create_request title []) = ''Playlist migrated from Spotify - '' @ title"
    by (simp add: create_request_def)
next
  show "created_playlists (trace (snd (createYouTubePlaylist yt title description s0)))
       = created_playlists (trace s0) @
         [\<lparr>body_title = title,
           body_description =
             (if description = [] then ''Playlist migrated from Spotify - '' @ title
              else description),
           body_privacyStatus = ''private''\<rparr>]"
    by (simp add: createYouTubePlaylist_trace create_request_def)
next
  show "(if description = [] then ''Playlist migrated from Spotify - '' @ title else description)
       \<noteq> []"
    by simp
next
  assume run: "transferPlaylist sp yt p s = Some (r, s')"
  let ?b = "create_request (pl_name p)
                 (if pl_description p \<noteq> [] then pl_description p
                  else ''Migrated from Spotify: '' @ pl_name p)"
  from transferPlaylist_created[OF run]
  consider "created_playlists (trace s') = created_playlists (trace s) @ []"
    | "created_playlists (trace s') = created_playlists (trace s) @ [?b]"
    by auto
  then show "\<exists>bs. created_playlists (trace s') = created_playlists (trace s) @ bs
           \<and> (\<forall>b \<in> set bs. body_description b \<noteq> [])
           \<and> (\<forall>b \<in> set bs. pl_description p = [] \<longrightarrow>
                  body_description b = ''Migrated from Spotify: '' @ pl_name p)"
  proof cases
    case 1
    then show ?thesis by (intro exI[of _ "[]"]) simp
  next
    case 2
    then show ?thesis
      by (intro exI[of _ "[?b]"]) (simp add: create_request_def)
  qed
qed

theorem created_description_never_empty_witness:
  "created_playlists (trace (snd (createYouTubePlaylist demo_youtube ''Mix'' [] demo_start)))
     = [\<lparr>body_title = ''Mix'', body_description = ''Playlist migrated from Spotify - Mix'',
         body_privacyStatus = ''private''\<rparr>]
   \<and> (\<exists>s'. transferPlaylist demo_spotify demo_youtube (demo_playlist ''a'' ''Mix'' []) demo_start
          = Some (Inr (Transferred ''PL1''
                    \<lparr>addedCount = 2, notFoundCount = 1, failedCount = 1\<rparr>), s')
      \<and> created_playlists (trace s')
          = [\<lparr>body_title = ''Mix'', body_description = ''Migrated from Spotify: Mix'',
              body_privacyStatus = ''private''\<rparr>]
      \<and> body_description (hd (created_playlists (trace s'))) \<noteq> [])"
proof -
  from demo_run_a obtain s' where
    run: "transferPlaylist demo_spotify demo_youtube (demo_playlist ''a'' ''Mix'' []) demo_start
          = Some (Inr (Transferred ''PL1''
                    \<lparr>addedCount = 2, notFoundCount = 1, failedCount = 1\<rparr>), s')"
    and created: "created_playlists (trace s')
          = [create_request ''Mix'' ''Migrated from Spotify: Mix'']"
    by blast
  note inst = created_description_never_empty[where title = "''Mix''" and description = "[]"
      and yt = demo_youtube and ?s0.0 = demo_start and sp = demo_spotify
      and p = "demo_playlist ''a'' ''Mix'' []" and s = demo_start
      and r = "Inr (Transferred ''PL1'' \<lparr>addedCount = 2, notFoundCount = 1, failedCount = 1\<rparr>)"
      and s' = s']
  from inst have handed_empty:
    "created_playlists (trace (snd (createYouTubePlaylist demo_youtube ''Mix'' [] demo_start)))
     = [\<lparr>body_title = ''Mix'', body_description = ''Playlist migrated from Spotify - Mix'',
         body_privacyStatus = ''private''\<rparr>]"
    by (simp add: demo_start_def)
  from inst run
  obtain bs where bs: "created_playlists (trace s') = created_playlists (trace demo_start) @ bs"
    "\<forall>b \<in> set bs. body_description b \<noteq> []"
    by blast
  from bs created have "body_description (hd (created_playlists (trace s'))) \<noteq> []"
    by (auto simp: demo_start_def)
  with run created have "\<exists>s'. transferPlaylist demo_spotify demo_youtube
          (demo_playlist ''a'' ''Mix'' []) demo_start
          = Some (Inr (Transferred ''PL1''
                    \<lparr>addedCount = 2, notFoundCount = 1, failedCount = 1\<rparr>), s')
      \<and> created_playlists (trace s')
          = [\<lparr>body_title = ''Mix'', body_description = ''Migrated from Spotify: Mix'',
              body_privacyStatus = ''private''\<rparr>]
      \<and> body_description (hd (created_playlists (trace s'))) \<noteq> []"
    by (intro exI[of _ s']) (simp add: create_request_def)
  with handed_empty show ?thesis by blast
qed

end
